theory Spec2Isabelle
  imports Complex_Main "HOL-Library.Product_Lexorder"
begin

section \<open>JavaScript values\<close>

text \<open>
  Request bodies, query strings and provider responses reach the handlers as parsed JSON.
  A JSON number is the rational it denotes (IEEE rounding is not modelled); an object is
  its list of key/value pairs, read with \<open>map_of\<close>. Strings are \<open>char list\<close>, so a
  character is one byte.
\<close>

datatype json = JUndefined | JNull | JBool bool | JNum rat | JStr string
  | JArr "json list" | JObj "(string \<times> json) list"

type_synonym jobject = "(string \<times> json) list"

datatype error = TypeError string | DbError string string | ProviderError string

text \<open>\<open>err_code\<close> is \<open>err.code\<close>, \<open>err_message\<close> is \<open>err.message\<close>.\<close>

fun err_code :: "error \<Rightarrow> string option" where
  "err_code (DbError c m) = Some c"
| "err_code (TypeError m) = None"
| "err_code (ProviderError m) = None"

fun err_message :: "error \<Rightarrow> string" where
  "err_message (DbError c m) = m"
| "err_message (TypeError m) = m"
| "err_message (ProviderError m) = m"

text \<open>Destructuring \<open>const { k } = obj\<close> of an object: a missing key reads \<open>undefined\<close>.\<close>

definition lookup :: "jobject \<Rightarrow> string \<Rightarrow> json" where
  "lookup obj k = (case map_of obj k of None \<Rightarrow> JUndefined | Some v \<Rightarrow> v)"

text \<open>
  A property read \<open>v.k\<close>: it throws a TypeError on \<open>undefined\<close> and \<open>null\<close>, and reads
  \<open>undefined\<close> from a primitive or an array (none of the keys the handlers read is a
  built-in property).
\<close>

fun get_member :: "json \<Rightarrow> string \<Rightarrow> error + json" where
  "get_member JUndefined k = Inl (TypeError ''Cannot read properties of undefined'')"
| "get_member JNull k = Inl (TypeError ''Cannot read properties of null'')"
| "get_member (JObj kvs) k = Inr (lookup kvs k)"
| "get_member v k = Inr JUndefined"

text \<open>Optional chaining \<open>v?.k\<close>.\<close>

fun get_optional :: "json \<Rightarrow> string \<Rightarrow> json" where
  "get_optional (JObj kvs) k = lookup kvs k"
| "get_optional v k = JUndefined"

text \<open>Truthiness, as \<open>if (v)\<close>, \<open>a && b\<close> and \<open>a || b\<close> test it.\<close>

fun truthy :: "json \<Rightarrow> bool" where
  "truthy JUndefined = False"
| "truthy JNull = False"
| "truthy (JBool b) = b"
| "truthy (JNum r) = (r \<noteq> 0)"
| "truthy (JStr s) = (s \<noteq> [])"
| "truthy (JArr xs) = True"
| "truthy (JObj kvs) = True"

definition js_or :: "json \<Rightarrow> json \<Rightarrow> json" where
  "js_or a b = (if truthy a then a else b)"

fun join_comma :: "string list \<Rightarrow> string" where
  "join_comma [] = []"
| "join_comma [s] = s"
| "join_comma (s # t # ss) = s @ '','' @ join_comma (t # ss)"

text \<open>
  The string a template literal \<open>`${v}`\<close> gives. The first argument prints a number
  (\<open>Number.prototype.toString\<close>). An array joins its elements with commas, \<open>null\<close> and
  \<open>undefined\<close> elements printing as nothing; a plain object prints as
  \<open>[object Object]\<close> (an object with a key \<open>toString\<close> of its own, whose conversion
  throws, is outside the model).
\<close>

fun js_string :: "(rat \<Rightarrow> string) \<Rightarrow> json \<Rightarrow> string" where
  "js_string nf JUndefined = ''undefined''"
| "js_string nf JNull = ''null''"
| "js_string nf (JBool b) = (if b then ''true'' else ''false'')"
| "js_string nf (JNum r) = nf r"
| "js_string nf (JStr s) = s"
| "js_string nf (JArr xs) =
     join_comma (map (\<lambda>x. if x = JUndefined \<or> x = JNull then [] else js_string nf x) xs)"
| "js_string nf (JObj kvs) = ''[object Object]''"

text \<open>An environment variable is truthy when it is set and not empty.\<close>

fun env_set :: "string option \<Rightarrow> bool" where
  "env_set None = False"
| "env_set (Some s) = (s \<noteq> [])"

section \<open>The store\<close>

text \<open>
  The tables of \<open>database.sql\<close> that the handlers below read and write. A nullable
  column is an \<open>option\<close>. \<open>amount\<close> is \<open>DECIMAL(10,2)\<close>; \<open>created_date\<close> is
  \<open>DATE(created_at)\<close>.
\<close>

record order =
  order_id :: int
  customer_name :: string
  customer_email :: string
  customer_phone :: string
  package_name :: string
  amount :: rat
  status :: string
  payment_id :: "string option"
  created_date :: string

text \<open>
  \<open>event_packages\<close> and \<open>speakers\<close> share the columns the catalogue endpoints work
  with: \<open>id\<close>, \<open>display_order INTEGER DEFAULT 0\<close> (nullable) and \<open>is_active\<close>, which no
  statement of the application sets to NULL. The other columns of a row are kept as the
  values the insert was given.
\<close>

record 'a catalog_row =
  row_id :: int
  display_order :: "int option"
  is_active :: bool
  columns :: 'a

record package_columns =
  pkg_name :: json
  pkg_category :: json
  pkg_price :: json
  pkg_features :: json
  pkg_type :: json

record speaker_columns =
  spk_name :: json
  spk_title :: json
  spk_company :: json
  spk_bio :: json
  spk_image_url :: json

text \<open>Each \<open>SERIAL\<close> key has its sequence: the last value it gave out.\<close>

record store =
  orders :: "order list"
  orders_seq :: int
  event_packages :: "package_columns catalog_row list"
  event_packages_seq :: int
  speakers :: "speaker_columns catalog_row list"
  speakers_seq :: int

datatype catalog = EventPackages | Speakers

text \<open>The statements the handlers send, with the JavaScript values bound to them.\<close>

datatype stmt =
    Connect | Begin | Commit | Rollback
  | InsertOrder string string string string rat
  | UpdatePaymentId json int
  | CompleteOrder json json
  | SelectActive catalog
  | SelectNextOrder catalog
  | InsertRow catalog "json list" int
  | Deactivate catalog json
  | SetDisplayOrder catalog json json
  | SelectTotals
  | SelectTodaySales string

section \<open>The environment\<close>

text \<open>
  What the handlers take from outside the repository: the process environment, the
  libraries (crypto, express-validator, jsonwebtoken, the Razorpay client) and the
  database server.

  \<^item> \<open>pool_up\<close>, \<open>admin_pool_up\<close>: the module-level \<open>pool\<close> of \<open>server.js\<close> and
    of \<open>routes/admin.js\<close> is set.
  \<^item> \<open>createHmac\<close> \<open>key msg\<close>:
    \<open>crypto.createHmac('sha256', key).update(msg).digest('hex')\<close>.
  \<^item> \<open>db_error\<close>: the error with which the server rejects a statement (a parameter it
    cannot read as the column's type, a value out of range, a lost connection);
    \<open>None\<close> when the statement runs.
  \<^item> \<open>param_int\<close>, \<open>param_text\<close>: the integer and the text a JavaScript value is bound
    to as a query parameter; \<open>None\<close> is SQL NULL (node-postgres sends \<open>null\<close> and
    \<open>undefined\<close> as NULL).
  \<^item> \<open>paymentLink_create\<close>: \<open>razorpay.paymentLink.create\<close>; \<open>Inl\<close> when the call
    throws.
\<close>

record link_request =
  link_amount :: rat
  link_description :: string
  link_customer_name :: string
  link_customer_email :: string
  link_customer_contact :: string
  link_notes_order_id :: int
  link_notes_package :: string
  link_callback_url :: string

record link_response =
  short_url :: json
  link_id :: json

record env =
  pool_up :: bool
  admin_pool_up :: bool
  RAZORPAY_KEY_ID :: "string option"
  RAZORPAY_KEY_SECRET :: "string option"
  FRONTEND_URL :: "string option"
  APP_URL :: "string option"
  NODE_ENV :: "string option"
  createHmac :: "string \<Rightarrow> string \<Rightarrow> string"
  number_toString :: "rat \<Rightarrow> string"
  isEmail :: "string \<Rightarrow> bool"
  normalizeEmail :: "string \<Rightarrow> string"
  jwt_verify :: "string \<Rightarrow> bool"
  paymentLink_create :: "link_request \<Rightarrow> error + link_response"
  db_error :: "stmt \<Rightarrow> error option"
  param_int :: "json \<Rightarrow> int option"
  param_text :: "json \<Rightarrow> string option"
  current_date :: string
  js_today :: string

text \<open>The module-level \<open>razorpay\<close> client is set when both keys are set and are not the
  placeholders; otherwise the server runs in test mode.\<close>

definition razorpay :: "env \<Rightarrow> bool" where
  "razorpay e =
     (env_set (RAZORPAY_KEY_ID e) \<and> env_set (RAZORPAY_KEY_SECRET e) \<and>
      RAZORPAY_KEY_ID e \<noteq> Some ''your_key_id'' \<and>
      RAZORPAY_KEY_SECRET e \<noteq> Some ''your_key_secret'')"

text \<open>\<open>process.env.FRONTEND_URL || process.env.APP_URL || 'http://localhost:3000'\<close>\<close>

fun env_or :: "string option \<Rightarrow> string \<Rightarrow> string" where
  "env_or None d = d"
| "env_or (Some s) d = (if s \<noteq> [] then s else d)"

definition frontendUrl :: "env \<Rightarrow> string" where
  "frontendUrl e = env_or (FRONTEND_URL e) (env_or (APP_URL e) ''http://localhost:3000'')"

section \<open>Responses\<close>

text \<open>\<open>Json s b\<close> is \<open>res.status(s).json(b)\<close>; \<open>Redirect u\<close> is \<open>res.redirect(u)\<close>.\<close>

datatype response = Json nat json | Redirect string

definition db_unavailable :: response where
  "db_unavailable = Json 503 (JObj
     [(''error'', JStr ''Database connection not available''),
      (''message'', JStr ''The service is temporarily unavailable. Please try again later.''),
      (''code'', JStr ''DB_CONNECTION_ERROR'')])"

definition internal_server_error :: response where
  "internal_server_error = Json 500 (JObj [(''error'', JStr ''Internal server error'')])"

section \<open>Statements on the orders table\<close>

text \<open>
  \<open>pool_query\<close> runs a statement's effect unless the server rejects the statement, in
  which case the call throws and the table is as before.
\<close>

definition pool_query :: "env \<Rightarrow> stmt \<Rightarrow> (store \<Rightarrow> store) \<Rightarrow> store \<Rightarrow> error + store" where
  "pool_query e q effect st =
     (case db_error e q of Some err \<Rightarrow> Inl err | None \<Rightarrow> Inr (effect st))"

text \<open>\<open>UPDATE orders SET status = 'completed', payment_id = $2 WHERE id = $3\<close>\<close>

definition complete_rows :: "int option \<Rightarrow> string option \<Rightarrow> order list \<Rightarrow> order list" where
  "complete_rows i p rows =
     map (\<lambda>r. if Some (order_id r) = i then r\<lparr>status := ''completed'', payment_id := p\<rparr> else r) rows"

definition complete_order :: "env \<Rightarrow> json \<Rightarrow> json \<Rightarrow> store \<Rightarrow> error + store" where
  "complete_order e paymentId orderId st =
     pool_query e (CompleteOrder paymentId orderId)
       (\<lambda>s. s\<lparr>orders := complete_rows (param_int e orderId) (param_text e paymentId) (orders s)\<rparr>) st"

section \<open>POST /api/verify-payment\<close>

definition invalid_signature :: response where
  "invalid_signature = Json 400 (JObj [(''error'', JStr ''Invalid signature'')])"

definition success_true :: response where
  "success_true = Json 200 (JObj [(''success'', JBool True)])"

text \<open>
  The body of the handler's \<open>try\<close>: \<open>createHmac\<close> throws a TypeError when the key is
  \<open>undefined\<close>; the signature is compared with \<open>===\<close>, so only a string can match.
\<close>

definition verify_payment_try :: "env \<Rightarrow> store \<Rightarrow> jobject \<Rightarrow> error + response \<times> store" where
  "verify_payment_try e st body =
     (let orderId = lookup body ''orderId'';
          paymentId = lookup body ''paymentId'';
          signature = lookup body ''signature''
      in case RAZORPAY_KEY_SECRET e of
           None \<Rightarrow> Inl (TypeError ''The key argument must be of type string'')
         | Some secret \<Rightarrow>
             let expectedSignature =
                   createHmac e secret
                     (js_string (number_toString e) orderId @ ''|'' @
                      js_string (number_toString e) paymentId)
             in if JStr expectedSignature = signature
                then (case complete_order e paymentId orderId st of
                        Inl err \<Rightarrow> Inl err
                      | Inr st' \<Rightarrow> Inr (success_true, st'))
                else Inr (invalid_signature, st))"

definition verify_payment :: "env \<Rightarrow> store \<Rightarrow> jobject \<Rightarrow> response \<times> store" where
  "verify_payment e st body =
     (if \<not> pool_up e then (db_unavailable, st)
      else case verify_payment_try e st body of
             Inl err \<Rightarrow> (internal_server_error, st)
           | Inr r \<Rightarrow> r)"

section \<open>GET /api/payment-success\<close>

text \<open>
  The route has no \<open>checkDbConnection\<close>: with no pool, \<open>pool.query\<close> throws inside the
  \<open>try\<close>.
\<close>

definition redirect_to :: "env \<Rightarrow> string \<Rightarrow> json \<Rightarrow> response" where
  "redirect_to e flag oid =
     Redirect (frontendUrl e @ ''/?payment='' @ flag @ ''&order='' @ js_string (number_toString e) oid)"

definition payment_success_try :: "env \<Rightarrow> store \<Rightarrow> jobject \<Rightarrow> error + response \<times> store" where
  "payment_success_try e st query =
     (let oid = lookup query ''order_id'';
          razorpay_payment_id = lookup query ''razorpay_payment_id'';
          razorpay_payment_link_id = lookup query ''razorpay_payment_link_id'';
          razorpay_payment_link_status = lookup query ''razorpay_payment_link_status''
      in if razorpay_payment_link_status = JStr ''paid'' \<and> truthy oid
         then (if \<not> pool_up e then Inl (TypeError ''Cannot read properties of null'')
               else case complete_order e (js_or razorpay_payment_id razorpay_payment_link_id) oid st of
                      Inl err \<Rightarrow> Inl err
                    | Inr st' \<Rightarrow> Inr (redirect_to e ''success'' oid, st'))
         else Inr (redirect_to e ''failed'' oid, st))"

definition payment_success :: "env \<Rightarrow> store \<Rightarrow> jobject \<Rightarrow> response \<times> store" where
  "payment_success e st query =
     (case payment_success_try e st query of
        Inl err \<Rightarrow> (redirect_to e ''error'' (lookup query ''order_id''), st)
      | Inr r \<Rightarrow> r)"

section \<open>POST /api/razorpay-webhook\<close>

definition webhook_ok :: response where
  "webhook_ok = Json 200 (JObj [(''status'', JStr ''ok'')])"

definition webhook_failed :: response where
  "webhook_failed = Json 500 (JObj [(''error'', JStr ''Webhook processing failed'')])"

text \<open>
  The body of the \<open>try\<close> up to \<open>res.json\<close>. \<open>payment.id\<close> is read only when the update
  is sent, that is when \<open>orderId\<close> is truthy.
\<close>

definition razorpay_webhook_try :: "env \<Rightarrow> store \<Rightarrow> jobject \<Rightarrow> error + store" where
  "razorpay_webhook_try e st body =
     (let event = lookup body ''event'';
          payload = lookup body ''payload''
      in if event = JStr ''payment_link.paid''
         then (case get_member payload ''payment_link'' of
                 Inl err \<Rightarrow> Inl err
               | Inr payment_link \<Rightarrow>
                   (case get_member payload ''payment'' of
                      Inl err \<Rightarrow> Inl err
                    | Inr payment \<Rightarrow>
                        (case get_member payment_link ''notes'' of
                           Inl err \<Rightarrow> Inl err
                         | Inr notes \<Rightarrow>
                             let orderId = get_optional notes ''order_id''
                             in if truthy orderId
                                then (if \<not> pool_up e
                                      then Inl (TypeError ''Cannot read properties of null'')
                                      else case get_member payment ''id'' of
                                             Inl err \<Rightarrow> Inl err
                                           | Inr pid \<Rightarrow> complete_order e pid orderId st)
                                else Inr st)))
         else Inr st)"

definition razorpay_webhook :: "env \<Rightarrow> store \<Rightarrow> jobject \<Rightarrow> response \<times> store" where
  "razorpay_webhook e st body =
     (case razorpay_webhook_try e st body of
        Inl err \<Rightarrow> (webhook_failed, st)
      | Inr st' \<Rightarrow> (webhook_ok, st'))"

section \<open>POST /api/orders\<close>

text \<open>
  The body fields carry the JSON types the endpoint documents: strings for \<open>name\<close>,
  \<open>email\<close>, \<open>phone\<close> and \<open>package\<close>, a number for \<open>price\<close>.
\<close>

record order_request =
  req_name :: string
  req_email :: string
  req_phone :: string
  req_package :: string
  req_price :: rat

text \<open>The whitespace \<open>\s\<close> of a regular expression, among the one-byte characters.\<close>

definition is_space :: "char \<Rightarrow> bool" where
  "is_space c = (c \<in> set [CHR 0x09, CHR 0x0A, CHR 0x0B, CHR 0x0C, CHR 0x0D, CHR 0x20, CHR 0xA0])"

definition trim :: "string \<Rightarrow> string" where
  "trim s = rev (dropWhile is_space (rev (dropWhile is_space s)))"

definition isLength :: "nat \<Rightarrow> nat \<Rightarrow> string \<Rightarrow> bool" where
  "isLength lo hi s = (lo \<le> length s \<and> length s \<le> hi)"

definition is_digit :: "char \<Rightarrow> bool" where
  "is_digit c = (c \<in> set ''0123456789'')"

text \<open>\<open>/^[\+]?[1-9][\d]{0,15}$/\<close>\<close>

definition phone_digits :: "string \<Rightarrow> bool" where
  "phone_digits s =
     (case s of
        [] \<Rightarrow> False
      | c # ds \<Rightarrow> c \<in> set ''123456789'' \<and> length ds \<le> 15 \<and> list_all is_digit ds)"

definition matches_phone :: "string \<Rightarrow> bool" where
  "matches_phone s =
     (case s of
        [] \<Rightarrow> False
      | c # r \<Rightarrow> if c = CHR ''+'' then phone_digits r else phone_digits s)"

text \<open>\<open>isFloat({ min: 0.01 })\<close> on a number: every number prints as a float.\<close>

definition isFloat_min :: "rat \<Rightarrow> rat \<Rightarrow> bool" where
  "isFloat_min lo x = (lo \<le> x)"

definition check :: "bool \<Rightarrow> string \<Rightarrow> string \<Rightarrow> (string \<times> string) list" where
  "check ok path msg = (if ok then [] else [(path, msg)])"

text \<open>The chain \<open>validateOrder\<close>: the failed checks, as (field, message), in order.\<close>

definition validateOrder :: "env \<Rightarrow> order_request \<Rightarrow> (string \<times> string) list" where
  "validateOrder e req =
     check (isLength 2 100 (trim (req_name req))) ''name'' ''Name must be between 2 and 100 characters'' @
     check (isEmail e (req_email req)) ''email'' ''Invalid email format'' @
     check (matches_phone (req_phone req)) ''phone'' ''Invalid phone number format'' @
     check (req_package req \<in> set [''Professional'', ''Executive'', ''Leadership''])
       ''package'' ''Invalid package selection'' @
     check (isFloat_min (1 / 100) (req_price req)) ''price'' ''Invalid price''"

text \<open>\<open>errors.array()\<close>; of an error object, the field and the message are kept.\<close>

definition error_json :: "string \<times> string \<Rightarrow> json" where
  "error_json fm = JObj [(''path'', JStr (fst fm)), (''msg'', JStr (snd fm))]"

definition validation_failed :: "(string \<times> string) list \<Rightarrow> response" where
  "validation_failed errors = Json 400 (JObj
     [(''error'', JStr ''Validation failed''),
      (''message'', JStr ''Please check your input data''),
      (''code'', JStr ''VALIDATION_ERROR''),
      (''details'', JArr (map error_json errors))])"

definition duplicate_order :: response where
  "duplicate_order = Json 409 (JObj
     [(''error'', JStr ''Duplicate order''),
      (''message'', JStr ''An order with these details already exists''),
      (''code'', JStr ''DUPLICATE_ORDER_ERROR'')])"

definition order_creation_failed :: "env \<Rightarrow> error \<Rightarrow> response" where
  "order_creation_failed e err = Json 500 (JObj
     ([(''error'', JStr ''Unable to process your request. Please try again.''),
       (''message'', JStr ''Order creation failed. Please check your details and try again.''),
       (''code'', JStr ''ORDER_CREATION_ERROR'')] @
      (if NODE_ENV e = Some ''development'' then [(''details'', JStr (err_message err))] else [])))"

text \<open>The outer \<open>catch\<close> of the handler.\<close>

definition order_error :: "env \<Rightarrow> error \<Rightarrow> response" where
  "order_error e err =
     (if err_code err = Some ''23505'' then duplicate_order else order_creation_failed e err)"

text \<open>A value stored in a \<open>DECIMAL(10,2)\<close> column is rounded to two places, half away
  from zero.\<close>

definition numeric_10_2 :: "rat \<Rightarrow> rat" where
  "numeric_10_2 r =
     (if 0 \<le> r then of_int \<lfloor>r * 100 + 1 / 2\<rfloor> / 100
      else - (of_int \<lfloor>- r * 100 + 1 / 2\<rfloor> / 100))"

text \<open>
  \<open>INSERT INTO orders (...) VALUES ($1, ..., 'pending') RETURNING id\<close>. The key comes
  from the sequence, which keeps its new value whatever happens to the transaction; a
  key that a row already has violates the primary key (error 23505).
\<close>

definition insert_order ::
  "env \<Rightarrow> string \<Rightarrow> string \<Rightarrow> string \<Rightarrow> string \<Rightarrow> rat \<Rightarrow> store \<Rightarrow> error \<times> store + int \<times> store" where
  "insert_order e name email phone ticketPackage price st =
     (case db_error e (InsertOrder name email phone ticketPackage price) of
        Some err \<Rightarrow> Inl (err, st)
      | None \<Rightarrow>
          let i = orders_seq st + 1
          in if i \<in> set (map order_id (orders st))
             then Inl (DbError ''23505'' ''duplicate key value violates unique constraint'',
                       st\<lparr>orders_seq := i\<rparr>)
             else Inr (i, st\<lparr>orders := orders st @
                    [\<lparr>order_id = i, customer_name = name, customer_email = email,
                      customer_phone = phone, package_name = ticketPackage,
                      amount = numeric_10_2 price, status = ''pending'', payment_id = None,
                      created_date = current_date e\<rparr>],
                    orders_seq := i\<rparr>))"

text \<open>\<open>UPDATE orders SET payment_id = $1 WHERE id = $2\<close>\<close>

definition set_payment_id :: "string option \<Rightarrow> int \<Rightarrow> order list \<Rightarrow> order list" where
  "set_payment_id p i rows = map (\<lambda>r. if order_id r = i then r\<lparr>payment_id := p\<rparr> else r) rows"

definition paymentLinkData :: "env \<Rightarrow> string \<Rightarrow> string \<Rightarrow> string \<Rightarrow> string \<Rightarrow> rat \<Rightarrow> int \<Rightarrow> link_request" where
  "paymentLinkData e name email phone ticketPackage price i =
     \<lparr>link_amount = price * 100,
      link_description = ''R-Talks '' @ ticketPackage @ '' Ticket'',
      link_customer_name = name, link_customer_email = email, link_customer_contact = phone,
      link_notes_order_id = i, link_notes_package = ticketPackage,
      link_callback_url =
        frontendUrl e @ ''/payment-success?order_id='' @ number_toString e (of_int i)\<rparr>"

text \<open>
  The block \<open>if (razorpay) { try { ... } catch { } }\<close>, run on the store inside the
  transaction. It gives \<open>paymentLink\<close>, \<open>razorpayOrderId\<close>, the store, and whether a
  statement failed inside the transaction (the \<open>catch\<close> swallows the error of the
  update, but the server has aborted the transaction).
\<close>

definition request_payment_link ::
  "env \<Rightarrow> link_request \<Rightarrow> int \<Rightarrow> store \<Rightarrow> json \<times> json \<times> store \<times> bool" where
  "request_payment_link e linkData i st =
     (if razorpay e
      then (case paymentLink_create e linkData of
              Inl err \<Rightarrow> (JNull, JNull, st, False)
            | Inr paymentLinkResponse \<Rightarrow>
                (case db_error e (UpdatePaymentId (link_id paymentLinkResponse) i) of
                   Some err \<Rightarrow> (short_url paymentLinkResponse, link_id paymentLinkResponse, st, True)
                 | None \<Rightarrow>
                     (short_url paymentLinkResponse, link_id paymentLinkResponse,
                      st\<lparr>orders := set_payment_id (param_text e (link_id paymentLinkResponse)) i (orders st)\<rparr>,
                      False)))
      else (JNull, JNull, st, False))"

definition order_created :: "env \<Rightarrow> int \<Rightarrow> json \<Rightarrow> json \<Rightarrow> rat \<Rightarrow> response" where
  "order_created e i paymentLink razorpayOrderId price = Json 200 (JObj
     [(''orderId'', JNum (of_int i)),
      (''paymentLink'', paymentLink),
      (''razorpayOrderId'', razorpayOrderId),
      (''amount'', JNum price),
      (''testMode'', JBool (\<not> razorpay e)),
      (''useHostedPage'', JBool True)])"

text \<open>
  The inner \<open>try\<close>, from \<open>BEGIN\<close> to \<open>res.json\<close>. \<open>Inl\<close> carries the error thrown and
  the store as the failed transaction leaves it: without its rows. A \<open>COMMIT\<close> of an
  aborted transaction rolls it back and reports no error.
\<close>

definition rolled_back :: "store \<Rightarrow> store \<Rightarrow> store" where
  "rolled_back st st1 = st\<lparr>orders_seq := orders_seq st1\<rparr>"

definition order_transaction ::
  "env \<Rightarrow> string \<Rightarrow> string \<Rightarrow> string \<Rightarrow> string \<Rightarrow> rat \<Rightarrow> store \<Rightarrow> error \<times> store + response \<times> store" where
  "order_transaction e name email phone ticketPackage price st =
     (case db_error e Begin of
        Some err \<Rightarrow> Inl (err, st)
      | None \<Rightarrow>
          (case insert_order e name email phone ticketPackage price st of
             Inl (err, st1) \<Rightarrow> Inl (err, st1)
           | Inr (i, st1) \<Rightarrow>
               (case request_payment_link e
                       (paymentLinkData e name email phone ticketPackage price i) i st1 of
                  (paymentLink, razorpayOrderId, st2, aborted) \<Rightarrow>
                    (case db_error e Commit of
                       Some err \<Rightarrow> Inl (err, rolled_back st st1)
                     | None \<Rightarrow>
                         Inr (order_created e i paymentLink razorpayOrderId price,
                              if aborted then rolled_back st st1 else st2)))))"

text \<open>\<open>catch (err) { await client.query('ROLLBACK'); throw err; }\<close>\<close>

definition rollback_throw :: "env \<Rightarrow> error \<Rightarrow> error" where
  "rollback_throw e err = (case db_error e Rollback of Some err2 \<Rightarrow> err2 | None \<Rightarrow> err)"

definition create_order :: "env \<Rightarrow> store \<Rightarrow> order_request \<Rightarrow> response \<times> store" where
  "create_order e st req =
     (if \<not> pool_up e then (db_unavailable, st)
      else let errors = validateOrder e req
           in if errors \<noteq> [] then (validation_failed errors, st)
              else (case db_error e Connect of
                      Some err \<Rightarrow> (order_error e err, st)
                    | None \<Rightarrow>
                        (case order_transaction e (trim (req_name req))
                                (normalizeEmail e (req_email req)) (req_phone req)
                                (req_package req) (req_price req) st of
                           Inl (err, st') \<Rightarrow> (order_error e (rollback_throw e err), st')
                         | Inr r \<Rightarrow> r)))"

section \<open>Packages and speakers\<close>

text \<open>
  \<open>ORDER BY display_order, id\<close>: ascending, and PostgreSQL puts NULL after every
  value in an ascending order.
\<close>

definition order_key :: "'a catalog_row \<Rightarrow> (nat \<times> int) \<times> int" where
  "order_key r = ((case display_order r of None \<Rightarrow> (1, 0) | Some d \<Rightarrow> (0, d)), row_id r)"

text \<open>\<open>SELECT * FROM t WHERE is_active = true ORDER BY display_order, id\<close>\<close>

definition select_active :: "'a catalog_row list \<Rightarrow> 'a catalog_row list" where
  "select_active rows = sort_key order_key (filter is_active rows)"

text \<open>\<open>MAX(display_order)\<close>: over the values that are not NULL; NULL when there is none.\<close>

definition max_display_order :: "'a catalog_row list \<Rightarrow> int option" where
  "max_display_order rows =
     (case List.map_filter display_order rows of [] \<Rightarrow> None | d # ds \<Rightarrow> Some (fold max ds d))"

text \<open>\<open>COALESCE(MAX(display_order), 0) + 1\<close>, an \<open>INTEGER\<close> (32 bits) addition.\<close>

definition next_order :: "'a catalog_row list \<Rightarrow> error + int" where
  "next_order rows =
     (let n = (case max_display_order rows of None \<Rightarrow> 0 | Some m \<Rightarrow> m) + 1
      in if n > 2147483647 then Inl (DbError ''22003'' ''integer out of range'') else Inr n)"

text \<open>A table with its sequence.\<close>

type_synonym 'a table = "'a catalog_row list \<times> int"

text \<open>
  The two statements of a create handler: the next display order, then the insert, which
  leaves \<open>is_active\<close> to its default \<open>true\<close>.
\<close>

definition create_row ::
  "env \<Rightarrow> catalog \<Rightarrow> json list \<Rightarrow> 'a \<Rightarrow> 'a table \<Rightarrow> error \<times> 'a table + 'a catalog_row \<times> 'a table" where
  "create_row e c params cols t =
     (case db_error e (SelectNextOrder c) of
        Some err \<Rightarrow> Inl (err, t)
      | None \<Rightarrow>
          (case next_order (fst t) of
             Inl err \<Rightarrow> Inl (err, t)
           | Inr nextOrder \<Rightarrow>
               (case db_error e (InsertRow c params nextOrder) of
                  Some err \<Rightarrow> Inl (err, t)
                | None \<Rightarrow>
                    let i = snd t + 1;
                        r = \<lparr>row_id = i, display_order = Some nextOrder, is_active = True,
                             columns = cols\<rparr>
                    in if i \<in> set (map row_id (fst t))
                       then Inl (DbError ''23505'' ''duplicate key value violates unique constraint'',
                                 (fst t, i))
                       else Inr (r, (fst t @ [r], i)))))"

text \<open>\<open>UPDATE t SET is_active = false WHERE id = $1\<close>\<close>

definition deactivate :: "int option \<Rightarrow> 'a catalog_row list \<Rightarrow> 'a catalog_row list" where
  "deactivate i rows = map (\<lambda>r. if Some (row_id r) = i then r\<lparr>is_active := False\<rparr> else r) rows"

text \<open>\<open>UPDATE t SET display_order = $1 WHERE id = $2\<close>\<close>

definition set_display_order :: "int option \<Rightarrow> int option \<Rightarrow> 'a catalog_row list \<Rightarrow> 'a catalog_row list" where
  "set_display_order d i rows =
     map (\<lambda>r. if Some (row_id r) = i then r\<lparr>display_order := d\<rparr> else r) rows"

text \<open>What a catalogue handler answers: the rows of a query, one row, or a plain response.\<close>

datatype 'r reply = Rows "'r list" | Row 'r | Plain response

text \<open>\<open>verifyAdminToken\<close>, then the \<open>checkDbConnection\<close> of \<open>routes/admin.js\<close>:
  the response that ends the request, or \<open>None\<close> when the handler runs.\<close>

definition verifyAdminToken :: "env \<Rightarrow> string option \<Rightarrow> response option" where
  "verifyAdminToken e token =
     (case token of
        None \<Rightarrow> Some (Json 401 (JObj [(''error'', JStr ''No token provided'')]))
      | Some t \<Rightarrow>
          if t = [] then Some (Json 401 (JObj [(''error'', JStr ''No token provided'')]))
          else if jwt_verify e t then None
          else Some (Json 401 (JObj [(''error'', JStr ''Invalid token'')])))"

definition admin_gate :: "env \<Rightarrow> string option \<Rightarrow> response option" where
  "admin_gate e token =
     (case verifyAdminToken e token of
        Some r \<Rightarrow> Some r
      | None \<Rightarrow>
          if \<not> admin_pool_up e
          then Some (Json 503 (JObj [(''error'', JStr ''Database connection not available'')]))
          else None)"

definition list_active :: "env \<Rightarrow> catalog \<Rightarrow> 'a catalog_row list \<Rightarrow> 'a catalog_row reply" where
  "list_active e c rows =
     (case db_error e (SelectActive c) of
        Some err \<Rightarrow> Plain internal_server_error
      | None \<Rightarrow> Rows (select_active rows))"

text \<open>\<open>GET /api/packages\<close> and \<open>GET /api/speakers\<close>\<close>

definition get_packages :: "env \<Rightarrow> store \<Rightarrow> package_columns catalog_row reply" where
  "get_packages e st =
     (if \<not> pool_up e then Plain db_unavailable else list_active e EventPackages (event_packages st))"




text \<open>\<open>POST /api/admin/packages\<close> and \<open>POST /api/admin/speakers\<close>\<close>

definition admin_create_package ::
  "env \<Rightarrow> store \<Rightarrow> string option \<Rightarrow> jobject \<Rightarrow> package_columns catalog_row reply \<times> store" where
  "admin_create_package e st token body =
     (case admin_gate e token of
        Some r \<Rightarrow> (Plain r, st)
      | None \<Rightarrow>
          let name = lookup body ''name''; category = lookup body ''category'';
              price = lookup body ''price''; features = lookup body ''features'';
              package_type = lookup body ''package_type''
          in case create_row e EventPackages [name, category, price, features, package_type]
                    \<lparr>pkg_name = name, pkg_category = category, pkg_price = price,
                     pkg_features = features, pkg_type = package_type\<rparr>
                    (event_packages st, event_packages_seq st) of
               Inl (err, t) \<Rightarrow>
                 (Plain internal_server_error, st\<lparr>event_packages_seq := snd t\<rparr>)
             | Inr (r, t) \<Rightarrow>
                 (Row r, st\<lparr>event_packages := fst t, event_packages_seq := snd t\<rparr>))"

definition admin_create_speaker ::
  "env \<Rightarrow> store \<Rightarrow> string option \<Rightarrow> jobject \<Rightarrow> speaker_columns catalog_row reply \<times> store" where
  "admin_create_speaker e st token body =
     (case admin_gate e token of
        Some r \<Rightarrow> (Plain r, st)
      | None \<Rightarrow>
          let name = lookup body ''name''; title = lookup body ''title'';
              company = lookup body ''company''; bio = lookup body ''bio'';
              image_url = lookup body ''image_url''
          in case create_row e Speakers [name, title, company, bio, image_url]
                    \<lparr>spk_name = name, spk_title = title, spk_company = company,
                     spk_bio = bio, spk_image_url = image_url\<rparr>
                    (speakers st, speakers_seq st) of
               Inl (err, t) \<Rightarrow>
                 (Plain internal_server_error, st\<lparr>speakers_seq := snd t\<rparr>)
             | Inr (r, t) \<Rightarrow>
                 (Row r, st\<lparr>speakers := fst t, speakers_seq := snd t\<rparr>))"

text \<open>\<open>DELETE /api/admin/packages/:id\<close> and \<open>DELETE /api/admin/speakers/:id\<close>; the
  route parameter is a string.\<close>

definition admin_delete_package :: "env \<Rightarrow> store \<Rightarrow> string option \<Rightarrow> string \<Rightarrow> response \<times> store" where
  "admin_delete_package e st token ident =
     (case admin_gate e token of
        Some r \<Rightarrow> (r, st)
      | None \<Rightarrow>
          (case db_error e (Deactivate EventPackages (JStr ident)) of
             Some err \<Rightarrow> (internal_server_error, st)
           | None \<Rightarrow>
               (success_true,
                st\<lparr>event_packages := deactivate (param_int e (JStr ident)) (event_packages st)\<rparr>)))"


text \<open>\<open>PUT /api/admin/packages/:id/order\<close> and \<open>PUT /api/admin/speakers/:id/order\<close>\<close>

definition admin_package_order ::
  "env \<Rightarrow> store \<Rightarrow> string option \<Rightarrow> string \<Rightarrow> jobject \<Rightarrow> response \<times> store" where
  "admin_package_order e st token ident body =
     (case admin_gate e token of
        Some r \<Rightarrow> (r, st)
      | None \<Rightarrow>
          let d = lookup body ''display_order''
          in case db_error e (SetDisplayOrder EventPackages d (JStr ident)) of
               Some err \<Rightarrow> (internal_server_error, st)
             | None \<Rightarrow>
                 (success_true,
                  st\<lparr>event_packages :=
                       set_display_order (param_int e d) (param_int e (JStr ident)) (event_packages st)\<rparr>))"

definition admin_speaker_order ::
  "env \<Rightarrow> store \<Rightarrow> string option \<Rightarrow> string \<Rightarrow> jobject \<Rightarrow> response \<times> store" where
  "admin_speaker_order e st token ident body =
     (case admin_gate e token of
        Some r \<Rightarrow> (r, st)
      | None \<Rightarrow>
          let d = lookup body ''display_order''
          in case db_error e (SetDisplayOrder Speakers d (JStr ident)) of
               Some err \<Rightarrow> (internal_server_error, st)
             | None \<Rightarrow>
                 (success_true,
                  st\<lparr>speakers :=
                       set_display_order (param_int e d) (param_int e (JStr ident)) (speakers st)\<rparr>))"

section \<open>GET /api/admin/stats\<close>

text \<open>
  \<open>COUNT(*)\<close> and \<open>SUM(amount)\<close> over \<open>WHERE status = 'completed'\<close>, and the count of
  those rows with \<open>DATE(created_at) = $1\<close>. \<open>parseFloat(null) || 0\<close> is the 0 of an
  empty sum; the rounding of \<open>parseFloat\<close> is not modelled.
\<close>

definition completed :: "order list \<Rightarrow> order list" where
  "completed rows = filter (\<lambda>r. status r = ''completed'') rows"

definition total_tickets :: "order list \<Rightarrow> nat" where
  "total_tickets rows = length (completed rows)"

definition total_revenue :: "order list \<Rightarrow> rat" where
  "total_revenue rows = sum_list (map amount (completed rows))"

definition today_sales :: "string \<Rightarrow> order list \<Rightarrow> nat" where
  "today_sales today rows =
     length (filter (\<lambda>r. status r = ''completed'' \<and> created_date r = today) rows)"

definition admin_stats :: "env \<Rightarrow> store \<Rightarrow> string option \<Rightarrow> response" where
  "admin_stats e st token =
     (case admin_gate e token of
        Some r \<Rightarrow> r
      | None \<Rightarrow>
          let today = js_today e
          in case db_error e SelectTotals of
               Some err \<Rightarrow> internal_server_error
             | None \<Rightarrow>
                 (case db_error e (SelectTodaySales today) of
                    Some err \<Rightarrow> internal_server_error
                  | None \<Rightarrow>
                      Json 200 (JObj
                        [(''totalTickets'', JNum (of_nat (total_tickets (orders st)))),
                         (''totalRevenue'', JNum (total_revenue (orders st))),
                         (''todaySales'', JNum (of_nat (today_sales today (orders st))))])))"

section \<open>The completion channels\<close>

text \<open>
  The three requests that complete an order, and for each the payment identifier and the
  order identifier its handler binds to the update when the guard of the handler passes.
\<close>

datatype channel = ManualVerify jobject | RedirectCallback jobject | WebhookEvent jobject

fun run_channel :: "env \<Rightarrow> store \<Rightarrow> channel \<Rightarrow> response \<times> store" where
  "run_channel e st (ManualVerify body) = verify_payment e st body"
| "run_channel e st (RedirectCallback query) = payment_success e st query"
| "run_channel e st (WebhookEvent body) = razorpay_webhook e st body"

fun completion :: "env \<Rightarrow> channel \<Rightarrow> (json \<times> json) option" where
  "completion e (ManualVerify body) =
     (case RAZORPAY_KEY_SECRET e of
        None \<Rightarrow> None
      | Some secret \<Rightarrow>
          if lookup body ''signature'' =
               JStr (createHmac e secret
                 (js_string (number_toString e) (lookup body ''orderId'') @ ''|'' @
                  js_string (number_toString e) (lookup body ''paymentId'')))
          then Some (lookup body ''paymentId'', lookup body ''orderId'')
          else None)"
| "completion e (RedirectCallback query) =
     (if lookup query ''razorpay_payment_link_status'' = JStr ''paid'' \<and>
         truthy (lookup query ''order_id'')
      then Some (js_or (lookup query ''razorpay_payment_id'') (lookup query ''razorpay_payment_link_id''),
                 lookup query ''order_id'')
      else None)"
| "completion e (WebhookEvent body) =
     (if lookup body ''event'' = JStr ''payment_link.paid''
      then (case (get_member (lookup body ''payload'') ''payment_link'',
                  get_member (lookup body ''payload'') ''payment'') of
              (Inr payment_link, Inr payment) \<Rightarrow>
                (case (get_member payment_link ''notes'', get_member payment ''id'') of
                   (Inr notes, Inr pid) \<Rightarrow>
                     if truthy (get_optional notes ''order_id'')
                     then Some (pid, get_optional notes ''order_id'')
                     else None
                 | _ \<Rightarrow> None)
            | _ \<Rightarrow> None)
      else None)"

text \<open>The response with which a channel reports a completed order.\<close>

fun completed_response :: "env \<Rightarrow> channel \<Rightarrow> response" where
  "completed_response e (ManualVerify body) = success_true"
| "completed_response e (RedirectCallback query) =
     redirect_to e ''success'' (lookup query ''order_id'')"
| "completed_response e (WebhookEvent body) = webhook_ok"

section \<open>An environment for the examples\<close>

text \<open>
  A concrete environment, to run the handlers on examples. Its library functions are
  simple stand-ins that agree with the libraries on the values the examples use: a keyed
  digest that is not SHA-256 (the handler only compares digests), an email check that
  accepts one \<open>@\<close> between a local part and a dotted domain, decimal printing of
  integers, and a server that rejects an identifier which is not a decimal integer
  (PostgreSQL error 22P02) and a NULL in a column that does not take one.
\<close>

definition demo_hmac :: "string \<Rightarrow> string \<Rightarrow> string" where
  "demo_hmac key msg = ''hmac('' @ key @ '','' @ msg @ '')''"

fun show_nat :: "nat \<Rightarrow> string" where
  "show_nat n = (if n < 10 then [''0123456789'' ! n] else show_nat (n div 10) @ [''0123456789'' ! (n mod 10)])"

definition show_int :: "int \<Rightarrow> string" where
  "show_int i = (if i < 0 then ''-'' @ show_nat (nat (- i)) else show_nat (nat i))"

definition demo_number :: "rat \<Rightarrow> string" where
  "demo_number r =
     (if r = of_int \<lfloor>r\<rfloor> then show_int \<lfloor>r\<rfloor>
      else show_int (fst (quotient_of r)) @ ''/'' @ show_int (snd (quotient_of r)))"

definition demo_isEmail :: "string \<Rightarrow> bool" where
  "demo_isEmail s =
     (let l = takeWhile (\<lambda>c. c \<noteq> CHR ''@'') s; r = dropWhile (\<lambda>c. c \<noteq> CHR ''@'') s
      in l \<noteq> [] \<and> r \<noteq> [] \<and> CHR ''@'' \<notin> set (tl r) \<and> CHR ''.'' \<in> set (tl r) \<and>
         CHR '' '' \<notin> set s)"

fun digit_value :: "char \<Rightarrow> nat" where
  "digit_value c =
     (if c = CHR ''1'' then 1 else if c = CHR ''2'' then 2 else if c = CHR ''3'' then 3
      else if c = CHR ''4'' then 4 else if c = CHR ''5'' then 5 else if c = CHR ''6'' then 6
      else if c = CHR ''7'' then 7 else if c = CHR ''8'' then 8 else if c = CHR ''9'' then 9
      else 0)"

definition parse_nat :: "string \<Rightarrow> nat option" where
  "parse_nat s =
     (if s \<noteq> [] \<and> list_all is_digit s then Some (fold (\<lambda>c n. 10 * n + digit_value c) s 0)
      else None)"

fun demo_param_int :: "json \<Rightarrow> int option" where
  "demo_param_int (JStr s) =
     (case s of
        [] \<Rightarrow> None
      | c # ds \<Rightarrow> if c = CHR ''-'' then map_option (\<lambda>n. - int n) (parse_nat ds)
                  else map_option int (parse_nat s))"
| "demo_param_int (JNum r) = (if r = of_int \<lfloor>r\<rfloor> then Some \<lfloor>r\<rfloor> else None)"
| "demo_param_int v = None"

fun demo_param_text :: "json \<Rightarrow> string option" where
  "demo_param_text JUndefined = None"
| "demo_param_text JNull = None"
| "demo_param_text v = Some (js_string demo_number v)"

definition param_text_null :: "json \<Rightarrow> bool" where
  "param_text_null v = (v = JUndefined \<or> v = JNull)"

definition bad_integer :: "json \<Rightarrow> error option" where
  "bad_integer v =
     (if v = JUndefined \<or> v = JNull \<or> demo_param_int v \<noteq> None then None
      else Some (DbError ''22P02'' ''invalid input syntax for type integer''))"

text \<open>\<open>name\<close>, \<open>price\<close> and \<open>package_type\<close> of a package and \<open>name\<close> of a speaker
  are \<open>NOT NULL\<close> (error 23502).\<close>

fun null_column :: "catalog \<Rightarrow> json list \<Rightarrow> bool" where
  "null_column EventPackages [name, category, price, features, package_type] =
     (param_text_null name \<or> param_text_null price \<or> param_text_null package_type)"
| "null_column Speakers (name # others) = param_text_null name"
| "null_column c ps = False"

fun demo_db_error :: "stmt \<Rightarrow> error option" where
  "demo_db_error (CompleteOrder p i) = bad_integer i"
| "demo_db_error (Deactivate c i) = bad_integer i"
| "demo_db_error (InsertRow c ps n) =
     (if null_column c ps then Some (DbError ''23502'' ''null value violates not-null constraint'')
      else None)"
| "demo_db_error (SetDisplayOrder c d i) =
     (case bad_integer d of Some err \<Rightarrow> Some err | None \<Rightarrow> bad_integer i)"
| "demo_db_error q = None"

definition demo_link :: "link_request \<Rightarrow> error + link_response" where
  "demo_link r = Inr \<lparr>short_url = JStr ''https://rzp.io/i/demo'', link_id = JStr ''plink_demo''\<rparr>"

definition failing_link :: "link_request \<Rightarrow> error + link_response" where
  "failing_link r = Inl (ProviderError ''Authentication failed'')"

definition demo_env :: env where
  "demo_env =
     \<lparr>pool_up = True, admin_pool_up = True,
      RAZORPAY_KEY_ID = Some ''rzp_test_demo'', RAZORPAY_KEY_SECRET = Some ''s3cret'',
      FRONTEND_URL = Some ''https://www.rtalks.in'', APP_URL = None,
      NODE_ENV = Some ''production'',
      createHmac = demo_hmac, number_toString = demo_number,
      isEmail = demo_isEmail, normalizeEmail = (\<lambda>s. s),
      jwt_verify = (\<lambda>t. t = ''admin-session''),
      paymentLink_create = demo_link,
      db_error = demo_db_error, param_int = demo_param_int, param_text = demo_param_text,
      current_date = ''2025-03-01'', js_today = ''2025-03-01''\<rparr>"

text \<open>The same server with a provider that refuses every call, and with no keys at all.\<close>

definition provider_down_env :: env where
  "provider_down_env = demo_env\<lparr>paymentLink_create := failing_link\<rparr>"

definition test_mode_env :: env where
  "test_mode_env = demo_env\<lparr>RAZORPAY_KEY_ID := None, RAZORPAY_KEY_SECRET := None\<rparr>"

definition empty_store :: store where
  "empty_store =
     \<lparr>orders = [], orders_seq = 0, event_packages = [], event_packages_seq = 0,
      speakers = [], speakers_seq = 0\<rparr>"

definition jane :: order_request where
  "jane = \<lparr>req_name = ''Jane Doe'', req_email = ''jane@x.com'', req_phone = ''+919999999999'',
           req_package = ''Professional'', req_price = 299\<rparr>"

definition order_42 :: order where
  "order_42 =
     \<lparr>order_id = 42, customer_name = ''Jane Doe'', customer_email = ''jane@x.com'',
      customer_phone = ''+919999999999'', package_name = ''Professional'', amount = 299,
      status = ''pending'', payment_id = None, created_date = ''2025-03-01''\<rparr>"

definition store_42 :: store where
  "store_42 = empty_store\<lparr>orders := [order_42], orders_seq := 42\<rparr>"

definition paid_body :: jobject where
  "paid_body = [(''orderId'', JStr ''42''), (''paymentId'', JStr ''pay_1''),
                (''signature'', JStr (demo_hmac ''s3cret'' ''42|pay_1''))]"


definition paid_query :: jobject where
  "paid_query = [(''razorpay_payment_link_status'', JStr ''paid''), (''order_id'', JStr ''42''),
                 (''razorpay_payment_id'', JStr ''pay_r'')]"

definition cancelled_query :: jobject where
  "cancelled_query = [(''razorpay_payment_link_status'', JStr ''cancelled''), (''order_id'', JStr ''42'')]"

definition paid_event :: jobject where
  "paid_event =
     [(''event'', JStr ''payment_link.paid''),
      (''payload'', JObj
         [(''payment_link'', JObj [(''notes'', JObj [(''order_id'', JNum 42)])]),
          (''payment'', JObj [(''id'', JStr ''pay_abc'')])])]"

text \<open>A request that is valid but for its price, half a cent.\<close>

definition half_cent :: order_request where
  "half_cent = jane\<lparr>req_price := 1 / 200\<rparr>"

text \<open>The row \<open>POST /api/orders\<close> inserts for a request, as \<open>insert_order\<close> builds it
  from the sanitised fields.\<close>

definition new_order :: "env \<Rightarrow> store \<Rightarrow> order_request \<Rightarrow> order" where
  "new_order e st req =
     \<lparr>order_id = orders_seq st + 1, customer_name = trim (req_name req),
      customer_email = normalizeEmail e (req_email req), customer_phone = req_phone req,
      package_name = req_package req, amount = numeric_10_2 (req_price req),
      status = ''pending'', payment_id = None, created_date = current_date e\<rparr>"

text \<open>A package body, an admin session, and a store with two packages, the second
  ordered before the first.\<close>

definition gold_body :: jobject where
  "gold_body = [(''name'', JStr ''Gold''), (''category'', JStr ''Standard''), (''price'', JNum 999),
                (''features'', JArr [JStr ''Lunch'']), (''package_type'', JStr ''individual'')]"

definition gold :: package_columns where
  "gold = \<lparr>pkg_name = JStr ''Gold'', pkg_category = JStr ''Standard'', pkg_price = JNum 999,
           pkg_features = JArr [JStr ''Lunch''], pkg_type = JStr ''individual''\<rparr>"

definition session :: "string option" where
  "session = Some ''admin-session''"

definition two_packages :: store where
  "two_packages = empty_store
     \<lparr>event_packages :=
        [\<lparr>row_id = 1, display_order = Some 2, is_active = True, columns = gold\<rparr>,
         \<lparr>row_id = 2, display_order = Some 1, is_active = True, columns = gold\<rparr>],
      event_packages_seq := 2\<rparr>"

text \<open>
  The store after one package is created in the empty store, and that store after
  \<open>PUT /api/admin/packages/1/order\<close> with a body that has no \<open>display_order\<close>: the
  driver binds \<open>undefined\<close> as NULL.
\<close>

definition one_package :: store where
  "one_package = snd (admin_create_package demo_env empty_store session gold_body)"

definition null_order_store :: store where
  "null_order_store = snd (admin_package_order demo_env one_package session ''1'' [])"



text \<open>A completed order.\<close>

definition paid_order :: order where
  "paid_order = order_42\<lparr>order_id := 7, status := ''completed'', payment_id := Some ''pay_7''\<rparr>"

section \<open>Properties\<close>

lemmas order_simps = create_order_def validateOrder_def check_def isLength_def trim_def is_space_def
  matches_phone_def phone_digits_def is_digit_def isFloat_min_def demo_isEmail_def jane_def half_cent_def

lemmas catalog_simps = two_packages_def gold_def gold_body_def session_def
  admin_delete_package_def admin_gate_def verifyAdminToken_def get_packages_def list_active_def
  select_active_def order_key_def deactivate_def

lemmas create_simps = admin_create_package_def admin_package_order_def create_row_def next_order_def
  max_display_order_def List.map_filter_def set_display_order_def one_package_def
  null_order_store_def Let_def

lemmas example_simps = paid_query_def cancelled_query_def paid_event_def paid_body_def

lemmas demo_simps = demo_env_def test_mode_env_def provider_down_env_def store_42_def
  order_42_def empty_store_def lookup_def complete_rows_def demo_hmac_def parse_nat_def
  is_digit_def bad_integer_def

lemma responses_distinct:
  "success_true \<noteq> invalid_signature" "success_true \<noteq> internal_server_error"
  "success_true \<noteq> db_unavailable" "invalid_signature \<noteq> internal_server_error"
  "invalid_signature \<noteq> db_unavailable" "internal_server_error \<noteq> db_unavailable"
  by (simp_all add: success_true_def invalid_signature_def internal_server_error_def
      db_unavailable_def)

subsection \<open>Manual verification\<close>

lemma verify_payment_cases:
  assumes "pool_up e" and "RAZORPAY_KEY_SECRET e = Some secret"
  shows "verify_payment e st body =
     (if lookup body ''signature'' =
           JStr (createHmac e secret
             (js_string (number_toString e) (lookup body ''orderId'') @ ''|'' @
              js_string (number_toString e) (lookup body ''paymentId'')))
      then (case db_error e (CompleteOrder (lookup body ''paymentId'') (lookup body ''orderId'')) of
              None \<Rightarrow> (success_true,
                 st\<lparr>orders := complete_rows (param_int e (lookup body ''orderId''))
                     (param_text e (lookup body ''paymentId'')) (orders st)\<rparr>)
            | Some err \<Rightarrow> (internal_server_error, st))
      else (invalid_signature, st))"
  using assms
  by (simp add: verify_payment_def verify_payment_try_def complete_order_def pool_query_def Let_def
      split: option.splits)

lemma complete_rows_sets:
  assumes "r \<in> set (complete_rows i p rows)" and "Some (order_id r) = i"
  shows "status r = ''completed'' \<and> payment_id r = p"
proof -
  from assms(1) obtain x where x: "x \<in> set rows"
    and r: "r = (if Some (order_id x) = i then x\<lparr>status := ''completed'', payment_id := p\<rparr> else x)"
    unfolding complete_rows_def set_map by blast
  show ?thesis
  proof (cases "Some (order_id x) = i")
    case True
    with r show ?thesis by simp
  next
    case False
    with r have "r = x" by simp
    with False assms(2) show ?thesis by simp
  qed
qed




text \<open>
  C9. With \<open>RAZORPAY_KEY_SECRET\<close> unset the server is in test mode, the HMAC computation
  throws, the store is unchanged, and the response is neither the 400 nor the success:
  it is the 500 whenever the pool is up.
\<close>

theorem verify_payment_without_secret:
  assumes "RAZORPAY_KEY_SECRET e = None"
  shows "\<not> razorpay e \<and>
         verify_payment_try e st body = Inl (TypeError ''The key argument must be of type string'') \<and>
         snd (verify_payment e st body) = st \<and>
         fst (verify_payment e st body) \<noteq> invalid_signature \<and>
         fst (verify_payment e st body) \<noteq> success_true \<and>
         (pool_up e \<longrightarrow> fst (verify_payment e st body) = internal_server_error)"
  using assms
  by (simp add: razorpay_def verify_payment_def verify_payment_try_def Let_def responses_distinct
      responses_distinct[symmetric])

theorem verify_payment_without_secret_witness:
  "RAZORPAY_KEY_SECRET test_mode_env = None \<and> pool_up test_mode_env \<and>
   verify_payment test_mode_env store_42 paid_body = (internal_server_error, store_42)"
  using verify_payment_without_secret [of test_mode_env store_42 paid_body]
  by (simp add: demo_simps prod_eq_iff)

subsection \<open>The redirect callback\<close>

lemma payment_success_cases:
  "payment_success e st query =
     (if lookup query ''razorpay_payment_link_status'' = JStr ''paid'' \<and> truthy (lookup query ''order_id'')
      then (if pool_up e \<and>
               db_error e (CompleteOrder
                 (js_or (lookup query ''razorpay_payment_id'') (lookup query ''razorpay_payment_link_id''))
                 (lookup query ''order_id'')) = None
            then (redirect_to e ''success'' (lookup query ''order_id''),
                  st\<lparr>orders := complete_rows (param_int e (lookup query ''order_id''))
                    (param_text e (js_or (lookup query ''razorpay_payment_id'')
                       (lookup query ''razorpay_payment_link_id''))) (orders st)\<rparr>)
            else (redirect_to e ''error'' (lookup query ''order_id''), st))
      else (redirect_to e ''failed'' (lookup query ''order_id''), st))"
  by (simp add: payment_success_def payment_success_try_def complete_order_def pool_query_def Let_def
      split: option.splits)




subsection \<open>The webhook\<close>

lemma razorpay_webhook_other_event:
  "lookup body ''event'' \<noteq> JStr ''payment_link.paid'' \<Longrightarrow> razorpay_webhook e st body = (webhook_ok, st)"
  by (simp add: razorpay_webhook_def razorpay_webhook_try_def Let_def)

lemma razorpay_webhook_paid:
  assumes "lookup body ''event'' = JStr ''payment_link.paid''"
    and "get_member (lookup body ''payload'') ''payment_link'' = Inr payment_link"
    and "get_member (lookup body ''payload'') ''payment'' = Inr payment"
    and "get_member payment_link ''notes'' = Inr notes"
  shows "razorpay_webhook_try e st body =
     (if truthy (get_optional notes ''order_id'')
      then (if \<not> pool_up e then Inl (TypeError ''Cannot read properties of null'')
            else case get_member payment ''id'' of
                   Inl err \<Rightarrow> Inl err
                 | Inr pid \<Rightarrow> complete_order e pid (get_optional notes ''order_id'') st)
      else Inr st)"
  using assms by (simp add: razorpay_webhook_try_def Let_def)

lemma complete_rows_no_match:
  "\<forall>r \<in> set rows. Some (order_id r) \<noteq> i \<Longrightarrow> complete_rows i p rows = rows"
  by (induction rows) (simp_all add: complete_rows_def)

text \<open>
  C5. An event other than \<open>payment_link.paid\<close> is answered \<open>{status: 'ok'}\<close> and
  changes nothing. A \<open>payment_link.paid\<close> event whose
  \<open>payload.payment_link.notes.order_id\<close> is set completes the rows with that id, with
  \<open>payload.payment.id\<close> as payment id, and is answered \<open>{status: 'ok'}\<close>, also when no row
  has that id (the store is then unchanged); with no order identifier it is answered
  \<open>{status: 'ok'}\<close> and changes nothing. Every run of the handler that does not throw is
  answered 200 \<open>{status: 'ok'}\<close>; one that throws is answered 500 and changes nothing.
\<close>

theorem razorpay_webhook_response:
  "(lookup body ''event'' \<noteq> JStr ''payment_link.paid'' \<longrightarrow>
      razorpay_webhook e st body = (webhook_ok, st)) \<and>
   (lookup body ''event'' = JStr ''payment_link.paid'' \<and>
    get_member (lookup body ''payload'') ''payment_link'' = Inr payment_link \<and>
    get_member (lookup body ''payload'') ''payment'' = Inr payment \<and>
    get_member payment_link ''notes'' = Inr notes \<and>
    truthy (get_optional notes ''order_id'') \<and> get_member payment ''id'' = Inr pid \<and>
    pool_up e \<and> db_error e (CompleteOrder pid (get_optional notes ''order_id'')) = None \<longrightarrow>
      razorpay_webhook e st body =
        (webhook_ok,
         st\<lparr>orders := complete_rows (param_int e (get_optional notes ''order_id''))
              (param_text e pid) (orders st)\<rparr>) \<and>
      ((\<forall>r \<in> set (orders st). Some (order_id r) \<noteq> param_int e (get_optional notes ''order_id'')) \<longrightarrow>
         razorpay_webhook e st body = (webhook_ok, st))) \<and>
   (lookup body ''event'' = JStr ''payment_link.paid'' \<and>
    get_member (lookup body ''payload'') ''payment_link'' = Inr payment_link \<and>
    get_member (lookup body ''payload'') ''payment'' = Inr payment \<and>
    get_member payment_link ''notes'' = Inr notes \<and>
    \<not> truthy (get_optional notes ''order_id'') \<longrightarrow>
      razorpay_webhook e st body = (webhook_ok, st)) \<and>
   (\<forall>st'. razorpay_webhook_try e st body = Inr st' \<longrightarrow>
      razorpay_webhook e st body = (webhook_ok, st')) \<and>
   (\<forall>err. razorpay_webhook_try e st body = Inl err \<longrightarrow>
      razorpay_webhook e st body = (webhook_failed, st))"
proof -
  let ?oid = "get_optional notes ''order_id''"
  have other: "lookup body ''event'' \<noteq> JStr ''payment_link.paid'' \<longrightarrow>
      razorpay_webhook e st body = (webhook_ok, st)"
    by (simp add: razorpay_webhook_other_event)
  have returns: "\<forall>st'. razorpay_webhook_try e st body = Inr st' \<longrightarrow>
      razorpay_webhook e st body = (webhook_ok, st')"
    by (simp add: razorpay_webhook_def)
  have throws: "\<forall>err. razorpay_webhook_try e st body = Inl err \<longrightarrow>
      razorpay_webhook e st body = (webhook_failed, st)"
    by (simp add: razorpay_webhook_def)
  have absent: "razorpay_webhook e st body = (webhook_ok, st)"
    if "lookup body ''event'' = JStr ''payment_link.paid''"
      "get_member (lookup body ''payload'') ''payment_link'' = Inr payment_link"
      "get_member (lookup body ''payload'') ''payment'' = Inr payment"
      "get_member payment_link ''notes'' = Inr notes"
      "\<not> truthy ?oid"
    using razorpay_webhook_paid [OF that(1-4), of e st] that(5)
    by (simp add: razorpay_webhook_def)
  have paid: "razorpay_webhook e st body =
        (webhook_ok, st\<lparr>orders := complete_rows (param_int e ?oid) (param_text e pid) (orders st)\<rparr>)"
    if "lookup body ''event'' = JStr ''payment_link.paid''"
      "get_member (lookup body ''payload'') ''payment_link'' = Inr payment_link"
      "get_member (lookup body ''payload'') ''payment'' = Inr payment"
      "get_member payment_link ''notes'' = Inr notes"
      "truthy ?oid" "get_member payment ''id'' = Inr pid"
      "pool_up e" "db_error e (CompleteOrder pid ?oid) = None"
    using razorpay_webhook_paid [OF that(1-4), of e st] that(5-8)
    by (simp add: razorpay_webhook_def complete_order_def pool_query_def)
  have unmatched: "razorpay_webhook e st body = (webhook_ok, st)"
    if "lookup body ''event'' = JStr ''payment_link.paid''"
      "get_member (lookup body ''payload'') ''payment_link'' = Inr payment_link"
      "get_member (lookup body ''payload'') ''payment'' = Inr payment"
      "get_member payment_link ''notes'' = Inr notes"
      "truthy ?oid" "get_member payment ''id'' = Inr pid"
      "pool_up e" "db_error e (CompleteOrder pid ?oid) = None"
      "\<forall>r \<in> set (orders st). Some (order_id r) \<noteq> param_int e ?oid"
    using paid [OF that(1-8)] complete_rows_no_match [OF that(9), of "param_text e pid"]
    by simp
  show ?thesis
    using other returns throws absent paid unmatched by blast
qed

text \<open>
  The scenario of the specification on order 42, an event of another type, and a
  \<open>payment_link.paid\<close> event with no payload, which throws.
\<close>

theorem razorpay_webhook_response_witness:
  "razorpay_webhook demo_env store_42 paid_event =
     (webhook_ok, store_42\<lparr>orders := [order_42\<lparr>status := ''completed'', payment_id := Some ''pay_abc''\<rparr>]\<rparr>) \<and>
   razorpay_webhook demo_env store_42 [(''event'', JStr ''payment.captured'')] = (webhook_ok, store_42) \<and>
   razorpay_webhook demo_env store_42 [(''event'', JStr ''payment_link.paid'')] = (webhook_failed, store_42)"
  using razorpay_webhook_response [of paid_event demo_env store_42
      "JObj [(''notes'', JObj [(''order_id'', JNum 42)])]" "JObj [(''id'', JStr ''pay_abc'')]"
      "JObj [(''order_id'', JNum 42)]" "JStr ''pay_abc''"]
    razorpay_webhook_response [of "[(''event'', JStr ''payment.captured'')]" demo_env store_42]
    razorpay_webhook_response [of "[(''event'', JStr ''payment_link.paid'')]" demo_env store_42]
  by (simp add: example_simps demo_simps razorpay_webhook_try_def Let_def)

subsection \<open>The three channels together\<close>

lemma run_channel_completion:
  assumes "completion e c = Some (pid, oid)" and "pool_up e"
    and "db_error e (CompleteOrder pid oid) = None"
  shows "run_channel e st c =
     (completed_response e c,
      st\<lparr>orders := complete_rows (param_int e oid) (param_text e pid) (orders st)\<rparr>)"
proof (cases c)
  case (ManualVerify body)
  from assms(1) obtain secret where s: "RAZORPAY_KEY_SECRET e = Some secret"
    unfolding ManualVerify by (cases "RAZORPAY_KEY_SECRET e") simp_all
  from assms(1) s have m: "lookup body ''signature'' =
       JStr (createHmac e secret
         (js_string (number_toString e) (lookup body ''orderId'') @ ''|'' @
          js_string (number_toString e) (lookup body ''paymentId'')))"
      and p: "pid = lookup body ''paymentId''" and oo: "oid = lookup body ''orderId''"
    unfolding ManualVerify by (simp_all split: if_splits)
  show ?thesis
    unfolding ManualVerify using verify_payment_cases [OF assms(2) s, of st body] m assms(3)
    by (simp add: p oo)
next
  case (RedirectCallback query)
  from assms(1) have g: "lookup query ''razorpay_payment_link_status'' = JStr ''paid''"
      "truthy (lookup query ''order_id'')"
    and p: "pid = js_or (lookup query ''razorpay_payment_id'') (lookup query ''razorpay_payment_link_id'')"
    and oo: "oid = lookup query ''order_id''"
    unfolding RedirectCallback by (simp_all split: if_splits)
  show ?thesis
    unfolding RedirectCallback using g assms(2,3)
    by (simp add: payment_success_cases p oo)
next
  case (WebhookEvent body)
  from assms(1) have ev: "lookup body ''event'' = JStr ''payment_link.paid''"
    unfolding WebhookEvent by (simp split: if_splits)
  from assms(1) ev obtain payment_link payment where
    pl: "get_member (lookup body ''payload'') ''payment_link'' = Inr payment_link"
    and py: "get_member (lookup body ''payload'') ''payment'' = Inr payment"
    unfolding WebhookEvent by (simp split: sum.splits)
  from assms(1) ev pl py obtain nts where
    n: "get_member payment_link ''notes'' = Inr nts" and i: "get_member payment ''id'' = Inr pid"
    and t: "truthy (get_optional nts ''order_id'')" and oo: "oid = get_optional nts ''order_id''"
    unfolding WebhookEvent by (simp split: sum.splits if_splits)
  show ?thesis
    unfolding WebhookEvent
    using razorpay_webhook_paid [OF ev pl py n, of e st] i t assms(2,3)
    by (simp add: razorpay_webhook_def complete_order_def pool_query_def oo)
qed

lemma complete_rows_twice:
  "complete_rows (Some i) q (complete_rows (Some i) p rows) = complete_rows (Some i) q rows"
  by (induction rows) (simp_all add: complete_rows_def)

lemma complete_rows_member:
  assumes "r \<in> set rows" and "order_id r = i"
  shows "r\<lparr>status := ''completed'', payment_id := p\<rparr> \<in> set (complete_rows (Some i) p rows)"
proof -
  have "(\<lambda>r. if Some (order_id r) = Some i then r\<lparr>status := ''completed'', payment_id := p\<rparr> else r) r
        \<in> set (complete_rows (Some i) p rows)"
    unfolding complete_rows_def set_map using assms(1) by (rule imageI)
  with assms(2) show ?thesis by simp
qed

text \<open>
  C3. A channel whose guard passes (a valid signature, a \<open>paid\<close> redirect, a
  \<open>payment_link.paid\<close> event) writes \<open>completed\<close> and its own payment identifier on
  every row with the order's id, whatever the row's status was: the update has no
  condition on the status. When a second channel then fires for the same order it
  succeeds as well, and the rows carry the payment identifier written last.
\<close>

theorem completion_overwrites:
  assumes "completion e c1 = Some (p1, o1)" and "completion e c2 = Some (p2, o2)"
    and "pool_up e"
    and "db_error e (CompleteOrder p1 o1) = None" and "db_error e (CompleteOrder p2 o2) = None"
    and "param_int e o1 = Some i" and "param_int e o2 = Some i"
  shows "run_channel e st c1 =
           (completed_response e c1, st\<lparr>orders := complete_rows (Some i) (param_text e p1) (orders st)\<rparr>) \<and>
         (\<forall>r \<in> set (orders st). order_id r = i \<longrightarrow>
            r\<lparr>status := ''completed'', payment_id := param_text e p1\<rparr>
              \<in> set (orders (snd (run_channel e st c1)))) \<and>
         run_channel e (snd (run_channel e st c1)) c2 =
           (completed_response e c2, st\<lparr>orders := complete_rows (Some i) (param_text e p2) (orders st)\<rparr>) \<and>
         (\<forall>r \<in> set (orders (snd (run_channel e (snd (run_channel e st c1)) c2))). order_id r = i \<longrightarrow>
            status r = ''completed'' \<and> payment_id r = param_text e p2)"
proof -
  have first: "run_channel e st c1 =
      (completed_response e c1, st\<lparr>orders := complete_rows (Some i) (param_text e p1) (orders st)\<rparr>)"
    using run_channel_completion [OF assms(1,3,4), of st] assms(6) by simp
  have second: "run_channel e (snd (run_channel e st c1)) c2 =
      (completed_response e c2, st\<lparr>orders := complete_rows (Some i) (param_text e p2) (orders st)\<rparr>)"
    using run_channel_completion [OF assms(2,3,5), of "snd (run_channel e st c1)"] assms(7)
    by (simp add: first complete_rows_twice)
  have written: "\<forall>r \<in> set (orders st). order_id r = i \<longrightarrow>
      r\<lparr>status := ''completed'', payment_id := param_text e p1\<rparr> \<in> set (orders (snd (run_channel e st c1)))"
    using complete_rows_member by (simp add: first)
  have last: "\<forall>r \<in> set (orders (snd (run_channel e (snd (run_channel e st c1)) c2))). order_id r = i \<longrightarrow>
      status r = ''completed'' \<and> payment_id r = param_text e p2"
    using complete_rows_sets [of _ "Some i" "param_text e p2" "orders st"] by (simp add: second)
  from first second written last show ?thesis by blast
qed

text \<open>
  Order 42 completed by the webhook and then by the redirect, and by the redirect and
  then by the manual verification: the second writer's payment id stays.
\<close>

theorem completion_overwrites_witness:
  "completion demo_env (WebhookEvent paid_event) = Some (JStr ''pay_abc'', JNum 42) \<and>
   completion demo_env (RedirectCallback paid_query) = Some (JStr ''pay_r'', JStr ''42'') \<and>
   completion demo_env (ManualVerify paid_body) = Some (JStr ''pay_1'', JStr ''42'') \<and>
   run_channel demo_env (snd (run_channel demo_env store_42 (WebhookEvent paid_event)))
       (RedirectCallback paid_query) =
     (Redirect ''https://www.rtalks.in/?payment=success&order=42'',
      store_42\<lparr>orders := [order_42\<lparr>status := ''completed'', payment_id := Some ''pay_r''\<rparr>]\<rparr>) \<and>
   run_channel demo_env (snd (run_channel demo_env store_42 (RedirectCallback paid_query)))
       (ManualVerify paid_body) =
     (success_true,
      store_42\<lparr>orders := [order_42\<lparr>status := ''completed'', payment_id := Some ''pay_1''\<rparr>]\<rparr>)"
proof -
  have w: "completion demo_env (WebhookEvent paid_event) = Some (JStr ''pay_abc'', JNum 42)"
    by (simp add: example_simps demo_simps)
  have r: "completion demo_env (RedirectCallback paid_query) = Some (JStr ''pay_r'', JStr ''42'')"
    by (simp add: example_simps demo_simps js_or_def)
  have v: "completion demo_env (ManualVerify paid_body) = Some (JStr ''pay_1'', JStr ''42'')"
    by (simp add: example_simps demo_simps)
  have up: "pool_up demo_env" by (simp add: demo_env_def)
  have ok: "db_error demo_env (CompleteOrder (JStr ''pay_abc'') (JNum 42)) = None"
    "db_error demo_env (CompleteOrder (JStr ''pay_r'') (JStr ''42'')) = None"
    "db_error demo_env (CompleteOrder (JStr ''pay_1'') (JStr ''42'')) = None"
    by (simp_all add: demo_simps)
  have ids: "param_int demo_env (JNum 42) = Some 42" "param_int demo_env (JStr ''42'') = Some 42"
    by (simp_all add: demo_simps)
  note wr = completion_overwrites [OF w r up ok(1) ok(2) ids(1) ids(2), of store_42,
      THEN conjunct2, THEN conjunct2, THEN conjunct1]
  note rv = completion_overwrites [OF r v up ok(2) ok(3) ids(2) ids(2), of store_42,
      THEN conjunct2, THEN conjunct2, THEN conjunct1]
  from w r v wr rv show ?thesis
    by (simp add: example_simps demo_simps redirect_to_def frontendUrl_def)
qed

subsection \<open>Order creation\<close>

lemma validateOrder_empty:
  "validateOrder e req = [] \<longleftrightarrow>
     isLength 2 100 (trim (req_name req)) \<and> isEmail e (req_email req) \<and>
     matches_phone (req_phone req) \<and>
     req_package req \<in> set [''Professional'', ''Executive'', ''Leadership''] \<and>
     isFloat_min (1 / 100) (req_price req)"
  unfolding validateOrder_def check_def by simp

lemma order_error_status:
  "order_error e err \<noteq> Json 400 b" "order_error e err \<noteq> Json 200 b"
  by (simp_all add: order_error_def duplicate_order_def order_creation_failed_def)

lemma order_transaction_response:
  "order_transaction e name email phone pkg price st = Inr (resp, st') \<Longrightarrow>
     \<exists>i pl rid. resp = order_created e i pl rid price"
  unfolding order_transaction_def
  by (simp split: option.splits sum.splits prod.splits) blast

lemma create_order_invalid:
  "pool_up e \<Longrightarrow> validateOrder e req \<noteq> [] \<Longrightarrow>
     create_order e st req = (validation_failed (validateOrder e req), st)"
  by (simp add: create_order_def Let_def)

lemma create_order_valid_not_400:
  assumes "pool_up e" and "validateOrder e req = []"
  shows "fst (create_order e st req) \<noteq> Json 400 b"
proof (cases "db_error e Connect")
  case (Some err)
  with assms show ?thesis by (simp add: create_order_def order_error_status)
next
  case None
  show ?thesis
  proof (cases "order_transaction e (trim (req_name req)) (normalizeEmail e (req_email req))
                  (req_phone req) (req_package req) (req_price req) st")
    case (Inl a)
    with assms None show ?thesis
      by (cases a) (simp add: create_order_def order_error_status)
  next
    case (Inr r)
    obtain resp st' where r: "r = (resp, st')" by (cases r)
    from Inr r obtain i pl rid where "resp = order_created e i pl rid (req_price req)"
      using order_transaction_response by blast
    with assms None Inr r show ?thesis
      by (simp add: create_order_def order_created_def)
  qed
qed

text \<open>
  C8, as the code has it. With the pool up, the request is answered 400 exactly when a
  check of \<open>validateOrder\<close> fails: the name, trimmed of surrounding whitespace, is not
  2 to 100 characters long; the email is malformed; the phone does not match the
  pattern; the package is not one of the three tiers; or the price is below 0.01. The
  400 lists the failed checks, one message per field, and no row is inserted.
\<close>

theorem create_order_validation:
  assumes "pool_up e"
  shows "let name_ok = (2 \<le> length (trim (req_name req)) \<and> length (trim (req_name req)) \<le> 100);
             email_ok = isEmail e (req_email req);
             phone_ok = matches_phone (req_phone req);
             package_ok = (req_package req = ''Professional'' \<or> req_package req = ''Executive'' \<or>
                           req_package req = ''Leadership'');
             price_ok = (1 / 100 \<le> req_price req);
             valid = (name_ok \<and> email_ok \<and> phone_ok \<and> package_ok \<and> price_ok);
             errors = validateOrder e req
         in ((\<exists>b. fst (create_order e st req) = Json 400 b) \<longleftrightarrow> \<not> valid) \<and>
            (\<not> valid \<longrightarrow> create_order e st req = (validation_failed errors, st) \<and> errors \<noteq> []) \<and>
            ((''name'', ''Name must be between 2 and 100 characters'') \<in> set errors \<longleftrightarrow> \<not> name_ok) \<and>
            ((''email'', ''Invalid email format'') \<in> set errors \<longleftrightarrow> \<not> email_ok) \<and>
            ((''phone'', ''Invalid phone number format'') \<in> set errors \<longleftrightarrow> \<not> phone_ok) \<and>
            ((''package'', ''Invalid package selection'') \<in> set errors \<longleftrightarrow> \<not> package_ok) \<and>
            ((''price'', ''Invalid price'') \<in> set errors \<longleftrightarrow> \<not> price_ok)"
proof -
  let ?valid = "(2 \<le> length (trim (req_name req)) \<and> length (trim (req_name req)) \<le> 100) \<and>
     isEmail e (req_email req) \<and> matches_phone (req_phone req) \<and>
     (req_package req = ''Professional'' \<or> req_package req = ''Executive'' \<or>
      req_package req = ''Leadership'') \<and> 1 / 100 \<le> req_price req"
  have v: "validateOrder e req = [] \<longleftrightarrow> ?valid"
    unfolding validateOrder_empty isLength_def isFloat_min_def by simp
  have bad: "create_order e st req = (validation_failed (validateOrder e req), st)" if "\<not> ?valid"
    using that v create_order_invalid [OF assms] by blast
  have is400: "\<exists>b. fst (create_order e st req) = Json 400 b" if "\<not> ?valid"
    using bad [OF that] by (simp add: validation_failed_def)
  have not400: "\<not> (\<exists>b. fst (create_order e st req) = Json 400 b)" if "?valid"
    using that v create_order_valid_not_400 [OF assms] by blast
  have fields:
    "((''name'', ''Name must be between 2 and 100 characters'') \<in> set (validateOrder e req)) =
       (\<not> (2 \<le> length (trim (req_name req)) \<and> length (trim (req_name req)) \<le> 100))"
    "((''email'', ''Invalid email format'') \<in> set (validateOrder e req)) = (\<not> isEmail e (req_email req))"
    "((''phone'', ''Invalid phone number format'') \<in> set (validateOrder e req)) =
       (\<not> matches_phone (req_phone req))"
    "((''package'', ''Invalid package selection'') \<in> set (validateOrder e req)) =
       (\<not> (req_package req = ''Professional'' \<or> req_package req = ''Executive'' \<or>
            req_package req = ''Leadership''))"
    "((''price'', ''Invalid price'') \<in> set (validateOrder e req)) = (\<not> 1 / 100 \<le> req_price req)"
    by (simp_all add: validateOrder_def check_def isLength_def isFloat_min_def)
  show ?thesis
    unfolding Let_def fields using v bad is400 not400 by blast
qed

text \<open>On a valid request but for a one-character name, and on a valid request.\<close>

theorem create_order_validation_witness:
  "pool_up demo_env \<and>
   create_order demo_env empty_store (jane\<lparr>req_name := '' J ''\<rparr>) =
     (validation_failed [(''name'', ''Name must be between 2 and 100 characters'')], empty_store) \<and>
   fst (create_order demo_env empty_store jane) \<noteq>
     validation_failed (validateOrder demo_env jane)"
  using create_order_validation [of demo_env "jane\<lparr>req_name := '' J ''\<rparr>" empty_store]
    create_order_validation [of demo_env jane empty_store]
  by (simp add: order_simps demo_simps validation_failed_def)

text \<open>
  C8 as stated fails: a price of 0.005 is strictly positive and every other field is
  valid, yet the request is answered 400 (\<open>isFloat({ min: 0.01 })\<close>).
\<close>

theorem create_order_rejects_small_price:
  "2 \<le> length (req_name half_cent) \<and> length (req_name half_cent) \<le> 100 \<and>
   isEmail demo_env (req_email half_cent) \<and> matches_phone (req_phone half_cent) \<and>
   req_package half_cent = ''Professional'' \<and> 0 < req_price half_cent \<and> pool_up demo_env \<and>
   create_order demo_env empty_store half_cent =
     (validation_failed [(''price'', ''Invalid price'')], empty_store)"
  by (simp add: order_simps demo_simps)

lemma set_payment_id_fresh:
  "i \<notin> set (map order_id rows) \<Longrightarrow> set_payment_id p i rows = rows"
  by (induction rows) (simp_all add: set_payment_id_def)

lemma set_payment_id_new:
  assumes "orders_seq st + 1 \<notin> set (map order_id (orders st))"
  shows "set_payment_id p (orders_seq st + 1) (orders st @ [new_order e st req]) =
           orders st @ [(new_order e st req)\<lparr>payment_id := p\<rparr>]"
proof -
  have "set_payment_id p (orders_seq st + 1) (orders st @ [new_order e st req]) =
          set_payment_id p (orders_seq st + 1) (orders st) @
          set_payment_id p (orders_seq st + 1) [new_order e st req]"
    by (simp add: set_payment_id_def)
  also have "set_payment_id p (orders_seq st + 1) (orders st) = orders st"
    using assms by (rule set_payment_id_fresh)
  also have "set_payment_id p (orders_seq st + 1) [new_order e st req] =
          [(new_order e st req)\<lparr>payment_id := p\<rparr>]"
    by (simp add: set_payment_id_def new_order_def)
  finally show ?thesis .
qed

lemma insert_order_cases:
  "insert_order e (trim (req_name req)) (normalizeEmail e (req_email req)) (req_phone req)
      (req_package req) (req_price req) st =
     (case db_error e (InsertOrder (trim (req_name req)) (normalizeEmail e (req_email req))
              (req_phone req) (req_package req) (req_price req)) of
        Some err \<Rightarrow> Inl (err, st)
      | None \<Rightarrow>
          if orders_seq st + 1 \<in> set (map order_id (orders st))
          then Inl (DbError ''23505'' ''duplicate key value violates unique constraint'',
                    st\<lparr>orders_seq := orders_seq st + 1\<rparr>)
          else Inr (orders_seq st + 1,
                    st\<lparr>orders := orders st @ [new_order e st req], orders_seq := orders_seq st + 1\<rparr>))"
  by (simp add: insert_order_def new_order_def Let_def split: option.splits)

text \<open>What the payment-link block leaves in a store that holds the new order.\<close>

lemma request_payment_link_cases:
  assumes "orders_seq st + 1 \<notin> set (map order_id (orders st))"
  shows "request_payment_link e ld (orders_seq st + 1)
           (st\<lparr>orders := orders st @ [new_order e st req], orders_seq := orders_seq st + 1\<rparr>) =
     (if razorpay e
      then (case paymentLink_create e ld of
              Inl err \<Rightarrow> (JNull, JNull,
                 st\<lparr>orders := orders st @ [new_order e st req], orders_seq := orders_seq st + 1\<rparr>, False)
            | Inr resp \<Rightarrow>
                (case db_error e (UpdatePaymentId (link_id resp) (orders_seq st + 1)) of
                   Some err \<Rightarrow> (short_url resp, link_id resp,
                     st\<lparr>orders := orders st @ [new_order e st req], orders_seq := orders_seq st + 1\<rparr>, True)
                 | None \<Rightarrow> (short_url resp, link_id resp,
                     st\<lparr>orders := orders st @ [(new_order e st req)\<lparr>payment_id := param_text e (link_id resp)\<rparr>],
                        orders_seq := orders_seq st + 1\<rparr>, False)))
      else (JNull, JNull,
            st\<lparr>orders := orders st @ [new_order e st req], orders_seq := orders_seq st + 1\<rparr>, False))"
  by (simp add: request_payment_link_def set_payment_id_new [OF assms]
      split: sum.splits option.splits)

lemma status_new_order: "status (new_order e st req) = ''pending''"
  "status ((new_order e st req)\<lparr>payment_id := p\<rparr>) = ''pending''"
  "payment_id (new_order e st req) = None"
  by (simp_all add: new_order_def)

lemma create_order_accepted:
  assumes "pool_up e" and "validateOrder e req = []" and "db_error e Connect = None"
    and "db_error e Begin = None"
    and "db_error e (InsertOrder (trim (req_name req)) (normalizeEmail e (req_email req))
              (req_phone req) (req_package req) (req_price req)) = None"
    and "orders_seq st + 1 \<notin> set (map order_id (orders st))"
    and "db_error e Commit = None"
  shows "create_order e st req =
     (case request_payment_link e
             (paymentLinkData e (trim (req_name req)) (normalizeEmail e (req_email req))
                (req_phone req) (req_package req) (req_price req) (orders_seq st + 1))
             (orders_seq st + 1)
             (st\<lparr>orders := orders st @ [new_order e st req], orders_seq := orders_seq st + 1\<rparr>) of
        (paymentLink, razorpayOrderId, st2, aborted) \<Rightarrow>
          (order_created e (orders_seq st + 1) paymentLink razorpayOrderId (req_price req),
           if aborted then st\<lparr>orders_seq := orders_seq st + 1\<rparr> else st2))"
  using assms
  by (simp add: create_order_def Let_def order_transaction_def insert_order_cases rolled_back_def
      split: prod.splits)

text \<open>Whatever happens, the orders after the request are those before, or those and
  one new pending order.\<close>

lemma create_order_orders:
  "orders (snd (create_order e st req)) = orders st \<or>
   (\<exists>p. orders (snd (create_order e st req)) = orders st @ [(new_order e st req)\<lparr>payment_id := p\<rparr>])"
proof (cases "pool_up e \<and> validateOrder e req = [] \<and> db_error e Connect = None \<and>
    db_error e Begin = None \<and>
    db_error e (InsertOrder (trim (req_name req)) (normalizeEmail e (req_email req))
              (req_phone req) (req_package req) (req_price req)) = None \<and>
    orders_seq st + 1 \<notin> set (map order_id (orders st)) \<and> db_error e Commit = None")
  case False
  then have "orders (snd (create_order e st req)) = orders st"
    by (auto simp: create_order_def Let_def order_transaction_def insert_order_cases rolled_back_def
        split: option.splits prod.splits)
  then show ?thesis ..
next
  case True
  then have fresh: "orders_seq st + 1 \<notin> set (map order_id (orders st))" by simp
  let ?ld = "paymentLinkData e (trim (req_name req)) (normalizeEmail e (req_email req))
                (req_phone req) (req_package req) (req_price req) (orders_seq st + 1)"
  have none: "(new_order e st req)\<lparr>payment_id := None\<rparr> = new_order e st req"
    by (simp add: new_order_def)
  from True have eq: "create_order e st req =
     (case request_payment_link e ?ld (orders_seq st + 1)
             (st\<lparr>orders := orders st @ [new_order e st req], orders_seq := orders_seq st + 1\<rparr>) of
        (paymentLink, razorpayOrderId, st2, aborted) \<Rightarrow>
          (order_created e (orders_seq st + 1) paymentLink razorpayOrderId (req_price req),
           if aborted then st\<lparr>orders_seq := orders_seq st + 1\<rparr> else st2))"
    using create_order_accepted by blast
  show ?thesis
  proof (cases "razorpay e")
    case False
    then have "orders (snd (create_order e st req)) = orders st @ [(new_order e st req)\<lparr>payment_id := None\<rparr>]"
      unfolding eq request_payment_link_cases [OF fresh] none by simp
    then show ?thesis by blast
  next
    case rz: True
    show ?thesis
    proof (cases "paymentLink_create e ?ld")
      case (Inl err)
      with rz have "orders (snd (create_order e st req)) =
          orders st @ [(new_order e st req)\<lparr>payment_id := None\<rparr>]"
        unfolding eq request_payment_link_cases [OF fresh] none by simp
      then show ?thesis by blast
    next
      case (Inr resp)
      show ?thesis
      proof (cases "db_error e (UpdatePaymentId (link_id resp) (orders_seq st + 1))")
        case None
        with rz Inr have "orders (snd (create_order e st req)) =
            orders st @ [(new_order e st req)\<lparr>payment_id := param_text e (link_id resp)\<rparr>]"
          unfolding eq request_payment_link_cases [OF fresh] by simp
        then show ?thesis by blast
      next
        case (Some err)
        with rz Inr have "orders (snd (create_order e st req)) = orders st"
          unfolding eq request_payment_link_cases [OF fresh] by simp
        then show ?thesis ..
      qed
    qed
  qed
qed


lemma floor_half: "\<lfloor>of_int n + (1 / 2 :: rat)\<rfloor> = n"
  by (rule floor_unique) simp_all

lemma numeric_10_2_int: "numeric_10_2 (of_int n) = of_int n"
proof -
  have a: "\<lfloor>of_int n * (100 :: rat) + 1 / 2\<rfloor> = n * 100"
    using floor_half [of "n * 100"] by simp
  have b: "\<lfloor>- of_int n * (100 :: rat) + 1 / 2\<rfloor> = - n * 100"
    using floor_half [of "- n * 100"] by simp
  show ?thesis
    unfolding numeric_10_2_def a b by simp
qed

lemma numeric_10_2_299: "numeric_10_2 299 = 299"
  using numeric_10_2_int [of 299] by simp

text \<open>
  C1. Whatever the request and whatever fails, an order row that the request adds has
  status \<open>pending\<close>. For a valid request whose transaction the store accepts: with no
  provider client, or when the provider call throws, the response is the 200 with a null
  \<open>paymentLink\<close> and the new row is \<open>pending\<close> with a NULL \<open>payment_id\<close>; when the
  provider call succeeds the response carries the link and the row is \<open>pending\<close> with
  the link's id.
\<close>

theorem create_order_pending:
  "(\<forall>r \<in> set (orders (snd (create_order e st req))). r \<notin> set (orders st) \<longrightarrow> status r = ''pending'') \<and>
   (pool_up e \<and> validateOrder e req = [] \<and> db_error e Connect = None \<and> db_error e Begin = None \<and>
    db_error e (InsertOrder (trim (req_name req)) (normalizeEmail e (req_email req))
       (req_phone req) (req_package req) (req_price req)) = None \<and>
    orders_seq st + 1 \<notin> set (map order_id (orders st)) \<and> db_error e Commit = None \<longrightarrow>
      (let i = orders_seq st + 1;
           row = new_order e st req;
           linkData = paymentLinkData e (trim (req_name req)) (normalizeEmail e (req_email req))
                        (req_phone req) (req_package req) (req_price req) i
       in status row = ''pending'' \<and> payment_id row = None \<and>
          (\<not> razorpay e \<or> (\<exists>err. paymentLink_create e linkData = Inl err) \<longrightarrow>
             create_order e st req =
               (Json 200 (JObj
                  [(''orderId'', JNum (of_int i)), (''paymentLink'', JNull),
                   (''razorpayOrderId'', JNull), (''amount'', JNum (req_price req)),
                   (''testMode'', JBool (\<not> razorpay e)), (''useHostedPage'', JBool True)]),
                st\<lparr>orders := orders st @ [row], orders_seq := i\<rparr>)) \<and>
          (\<forall>resp. razorpay e \<and> paymentLink_create e linkData = Inr resp \<and>
                  db_error e (UpdatePaymentId (link_id resp) i) = None \<longrightarrow>
             create_order e st req =
               (Json 200 (JObj
                  [(''orderId'', JNum (of_int i)), (''paymentLink'', short_url resp),
                   (''razorpayOrderId'', link_id resp), (''amount'', JNum (req_price req)),
                   (''testMode'', JBool False), (''useHostedPage'', JBool True)]),
                st\<lparr>orders := orders st @ [row\<lparr>payment_id := param_text e (link_id resp)\<rparr>],
                   orders_seq := i\<rparr>))))"
proof -
  have new_rows: "\<forall>r \<in> set (orders (snd (create_order e st req))). r \<notin> set (orders st) \<longrightarrow>
      status r = ''pending''"
  proof (intro ballI impI)
    fix r
    assume r: "r \<in> set (orders (snd (create_order e st req)))" and n: "r \<notin> set (orders st)"
    from create_order_orders [of e st req] show "status r = ''pending''"
    proof
      assume "orders (snd (create_order e st req)) = orders st"
      with r n show ?thesis by simp
    next
      assume "\<exists>p. orders (snd (create_order e st req)) = orders st @ [(new_order e st req)\<lparr>payment_id := p\<rparr>]"
      then obtain p where "orders (snd (create_order e st req)) =
          orders st @ [(new_order e st req)\<lparr>payment_id := p\<rparr>]" ..
      with r n have "r = (new_order e st req)\<lparr>payment_id := p\<rparr>" by simp
      then show ?thesis by (simp add: status_new_order)
    qed
  qed
  have accepted: "status (new_order e st req) = ''pending'' \<and> payment_id (new_order e st req) = None \<and>
       (\<not> razorpay e \<or> (\<exists>err. paymentLink_create e ld = Inl err) \<longrightarrow>
          create_order e st req =
            (Json 200 (JObj
               [(''orderId'', JNum (of_int (orders_seq st + 1))), (''paymentLink'', JNull),
                (''razorpayOrderId'', JNull), (''amount'', JNum (req_price req)),
                (''testMode'', JBool (\<not> razorpay e)), (''useHostedPage'', JBool True)]),
             st\<lparr>orders := orders st @ [new_order e st req], orders_seq := orders_seq st + 1\<rparr>)) \<and>
       (\<forall>resp. razorpay e \<and> paymentLink_create e ld = Inr resp \<and>
               db_error e (UpdatePaymentId (link_id resp) (orders_seq st + 1)) = None \<longrightarrow>
          create_order e st req =
            (Json 200 (JObj
               [(''orderId'', JNum (of_int (orders_seq st + 1))), (''paymentLink'', short_url resp),
                (''razorpayOrderId'', link_id resp), (''amount'', JNum (req_price req)),
                (''testMode'', JBool False), (''useHostedPage'', JBool True)]),
             st\<lparr>orders := orders st @ [(new_order e st req)\<lparr>payment_id := param_text e (link_id resp)\<rparr>],
                orders_seq := orders_seq st + 1\<rparr>))"
    if a: "pool_up e" "validateOrder e req = []" "db_error e Connect = None" "db_error e Begin = None"
      "db_error e (InsertOrder (trim (req_name req)) (normalizeEmail e (req_email req))
         (req_phone req) (req_package req) (req_price req)) = None"
      "orders_seq st + 1 \<notin> set (map order_id (orders st))" "db_error e Commit = None"
      and ld: "ld = paymentLinkData e (trim (req_name req)) (normalizeEmail e (req_email req))
                        (req_phone req) (req_package req) (req_price req) (orders_seq st + 1)"
    for ld
    unfolding create_order_accepted [OF a] request_payment_link_cases [OF a(6)] ld
    by (auto simp: status_new_order order_created_def)
  show ?thesis
    using new_rows accepted unfolding Let_def by blast
qed

text \<open>
  Jane's order with a provider that refuses the call, with no provider configured
  (\<open>testMode\<close> is true), and with a provider that answers.
\<close>

theorem create_order_pending_witness:
  "create_order provider_down_env empty_store jane =
     (Json 200 (JObj
        [(''orderId'', JNum 1), (''paymentLink'', JNull), (''razorpayOrderId'', JNull),
         (''amount'', JNum 299), (''testMode'', JBool False), (''useHostedPage'', JBool True)]),
      empty_store\<lparr>orders :=
        [\<lparr>order_id = 1, customer_name = ''Jane Doe'', customer_email = ''jane@x.com'',
          customer_phone = ''+919999999999'', package_name = ''Professional'', amount = 299,
          status = ''pending'', payment_id = None, created_date = ''2025-03-01''\<rparr>],
        orders_seq := 1\<rparr>) \<and>
   create_order test_mode_env empty_store jane =
     (Json 200 (JObj
        [(''orderId'', JNum 1), (''paymentLink'', JNull), (''razorpayOrderId'', JNull),
         (''amount'', JNum 299), (''testMode'', JBool True), (''useHostedPage'', JBool True)]),
      empty_store\<lparr>orders :=
        [\<lparr>order_id = 1, customer_name = ''Jane Doe'', customer_email = ''jane@x.com'',
          customer_phone = ''+919999999999'', package_name = ''Professional'', amount = 299,
          status = ''pending'', payment_id = None, created_date = ''2025-03-01''\<rparr>],
        orders_seq := 1\<rparr>) \<and>
   create_order demo_env empty_store jane =
     (Json 200 (JObj
        [(''orderId'', JNum 1), (''paymentLink'', JStr ''https://rzp.io/i/demo''),
         (''razorpayOrderId'', JStr ''plink_demo''),
         (''amount'', JNum 299), (''testMode'', JBool False), (''useHostedPage'', JBool True)]),
      empty_store\<lparr>orders :=
        [\<lparr>order_id = 1, customer_name = ''Jane Doe'', customer_email = ''jane@x.com'',
          customer_phone = ''+919999999999'', package_name = ''Professional'', amount = 299,
          status = ''pending'', payment_id = Some ''plink_demo'', created_date = ''2025-03-01''\<rparr>],
        orders_seq := 1\<rparr>)"
  using create_order_pending [of provider_down_env empty_store jane, THEN conjunct2]
    create_order_pending [of test_mode_env empty_store jane, THEN conjunct2]
    create_order_pending [of demo_env empty_store jane, THEN conjunct2]
  by (simp add: order_simps demo_simps new_order_def numeric_10_2_299 razorpay_def
      failing_link_def demo_link_def Let_def)

subsection \<open>Packages and speakers: listing and soft delete\<close>



lemma length_select_active: "length (select_active rows) = length (filter is_active rows)"
  by (simp add: select_active_def)


lemma deactivate_flags:
  "map is_active (deactivate i rows) =
     map (\<lambda>r. is_active r \<and> Some (row_id r) \<noteq> i) rows"
  by (induction rows) (simp_all add: deactivate_def)








lemma admin_gate_open:
  "admin_gate e token = None \<longleftrightarrow>
     (\<exists>t. token = Some t \<and> t \<noteq> [] \<and> jwt_verify e t) \<and> admin_pool_up e"
  by (cases token) (simp_all add: admin_gate_def verifyAdminToken_def split: option.splits if_splits)


















subsection \<open>Packages and speakers: creation\<close>

lemma set_map_filter: "set (List.map_filter f xs) = {y. \<exists>x \<in> set xs. f x = Some y}"
  by (induction xs) (auto simp: List.map_filter_def)

lemma max_display_order_Max:
  "max_display_order rows =
     (if List.map_filter display_order rows = [] then None
      else Some (Max (set (List.map_filter display_order rows))))"
  by (cases "List.map_filter display_order rows") (simp_all add: max_display_order_def Max.set_eq_fold [symmetric])

lemma max_display_order_bound:
  assumes "x \<in> set rows" and "display_order x = Some d"
  shows "\<exists>m. max_display_order rows = Some m \<and> d \<le> m"
proof -
  from assms have d: "d \<in> set (List.map_filter display_order rows)"
    unfolding set_map_filter by blast
  then have "List.map_filter display_order rows \<noteq> []" by auto
  moreover from d have "d \<le> Max (set (List.map_filter display_order rows))" by simp
  ultimately show ?thesis by (simp add: max_display_order_Max)
qed

lemma create_row_result:
  assumes "create_row e c params cols t = Inr (r, t')"
  shows "r = \<lparr>row_id = snd t + 1,
               display_order = Some ((case max_display_order (fst t) of None \<Rightarrow> 0 | Some m \<Rightarrow> m) + 1),
               is_active = True, columns = cols\<rparr> \<and>
         t' = (fst t @ [r], snd t + 1)"
  using assms
  by (clarsimp simp: create_row_def next_order_def Let_def split: option.splits if_splits)+


lemma create_row_listing:
  assumes "create_row e c params cols (rows, n) = Inr (r, t')"
  shows "(let ds = List.map_filter display_order rows
          in display_order r = Some ((if ds = [] then 0 else Max (set ds)) + 1)) \<and>
         is_active r \<and> fst t' = rows @ [r] \<and>
         (\<forall>x \<in> set rows. display_order x \<noteq> None \<longrightarrow> order_key x < order_key r)"
proof -
  from create_row_result [OF assms]
  have r: "r = \<lparr>row_id = n + 1,
               display_order = Some ((case max_display_order rows of None \<Rightarrow> 0 | Some m \<Rightarrow> m) + 1),
               is_active = True, columns = cols\<rparr>"
    and t': "t' = (rows @ [r], n + 1)" by simp_all
  have d: "display_order r = Some ((case max_display_order rows of None \<Rightarrow> 0 | Some m \<Rightarrow> m) + 1)"
    by (simp add: r)
  have before: "order_key x < order_key r" if "x \<in> set rows" "display_order x \<noteq> None" for x
  proof -
    from that(2) obtain dx where dx: "display_order x = Some dx" by blast
    from max_display_order_bound [OF that(1) dx] obtain m
      where m: "max_display_order rows = Some m" "dx \<le> m" by blast
    show ?thesis by (simp add: order_key_def dx d m less_prod_def)
  qed
  have "is_active r" by (simp add: r)
  moreover have "fst t' = rows @ [r]" by (simp add: t')
  moreover have "let ds = List.map_filter display_order rows
          in display_order r = Some ((if ds = [] then 0 else Max (set ds)) + 1)"
    unfolding Let_def d by (simp add: max_display_order_Max)
  ultimately show ?thesis using before by blast
qed

lemma admin_create_package_row:
  assumes "fst (admin_create_package e st token body) = Row r"
  shows "\<exists>params cols t'.
           create_row e EventPackages params cols (event_packages st, event_packages_seq st) = Inr (r, t') \<and>
           event_packages (snd (admin_create_package e st token body)) = fst t'"
proof (cases "admin_gate e token")
  case (Some resp)
  with assms show ?thesis by (simp add: admin_create_package_def)
next
  case None
  let ?params = "[lookup body ''name'', lookup body ''category'', lookup body ''price'',
                  lookup body ''features'', lookup body ''package_type'']"
  let ?cols = "\<lparr>pkg_name = lookup body ''name'', pkg_category = lookup body ''category'',
                 pkg_price = lookup body ''price'', pkg_features = lookup body ''features'',
                 pkg_type = lookup body ''package_type''\<rparr>"
  show ?thesis
  proof (cases "create_row e EventPackages ?params ?cols (event_packages st, event_packages_seq st)")
    case (Inl a)
    with None assms show ?thesis
      by (cases a) (simp add: admin_create_package_def Let_def)
  next
    case (Inr b)
    obtain r' t' where b: "b = (r', t')" by (cases b)
    from None Inr b assms have r: "r' = r" by (simp add: admin_create_package_def Let_def)
    from None Inr b have s: "event_packages (snd (admin_create_package e st token body)) = fst t'"
      by (simp add: admin_create_package_def Let_def)
    from Inr b r have "create_row e EventPackages ?params ?cols
        (event_packages st, event_packages_seq st) = Inr (r, t')" by simp
    with s show ?thesis by blast
  qed
qed

lemma admin_create_speaker_row:
  assumes "fst (admin_create_speaker e st token body) = Row r"
  shows "\<exists>params cols t'.
           create_row e Speakers params cols (speakers st, speakers_seq st) = Inr (r, t') \<and>
           speakers (snd (admin_create_speaker e st token body)) = fst t'"
proof (cases "admin_gate e token")
  case (Some resp)
  with assms show ?thesis by (simp add: admin_create_speaker_def)
next
  case None
  let ?params = "[lookup body ''name'', lookup body ''title'', lookup body ''company'',
                  lookup body ''bio'', lookup body ''image_url'']"
  let ?cols = "\<lparr>spk_name = lookup body ''name'', spk_title = lookup body ''title'',
                 spk_company = lookup body ''company'', spk_bio = lookup body ''bio'',
                 spk_image_url = lookup body ''image_url''\<rparr>"
  show ?thesis
  proof (cases "create_row e Speakers ?params ?cols (speakers st, speakers_seq st)")
    case (Inl a)
    with None assms show ?thesis
      by (cases a) (simp add: admin_create_speaker_def Let_def)
  next
    case (Inr b)
    obtain r' t' where b: "b = (r', t')" by (cases b)
    from None Inr b assms have r: "r' = r" by (simp add: admin_create_speaker_def Let_def)
    from None Inr b have s: "speakers (snd (admin_create_speaker e st token body)) = fst t'"
      by (simp add: admin_create_speaker_def Let_def)
    from Inr b r have "create_row e Speakers ?params ?cols
        (speakers st, speakers_seq st) = Inr (r, t')" by simp
    with s show ?thesis by blast
  qed
qed

text \<open>
  C7, as the code has it. Whenever a create succeeds, the new row has
  \<open>display_order\<close> one more than the greatest \<open>display_order\<close> that is not NULL in the
  table (1 when there is none, as in an empty table), it is active, it is added to the
  table, and it sorts after every existing row whose \<open>display_order\<close> is not NULL.
\<close>

theorem create_assigns_next_display_order:
  "(\<forall>r. fst (admin_create_package e st token body) = Row r \<longrightarrow>
      (let ds = List.map_filter display_order (event_packages st)
       in display_order r = Some ((if ds = [] then 0 else Max (set ds)) + 1)) \<and>
      is_active r \<and>
      event_packages (snd (admin_create_package e st token body)) = event_packages st @ [r] \<and>
      (\<forall>x \<in> set (event_packages st). display_order x \<noteq> None \<longrightarrow> order_key x < order_key r)) \<and>
   (\<forall>r. fst (admin_create_speaker e st token body) = Row r \<longrightarrow>
      (let ds = List.map_filter display_order (speakers st)
       in display_order r = Some ((if ds = [] then 0 else Max (set ds)) + 1)) \<and>
      is_active r \<and>
      speakers (snd (admin_create_speaker e st token body)) = speakers st @ [r] \<and>
      (\<forall>x \<in> set (speakers st). display_order x \<noteq> None \<longrightarrow> order_key x < order_key r))"
proof (intro conjI allI impI)
  fix r
  assume "fst (admin_create_package e st token body) = Row r"
  from admin_create_package_row [OF this] obtain params cols t'
    where c: "create_row e EventPackages params cols (event_packages st, event_packages_seq st) = Inr (r, t')"
      and s: "event_packages (snd (admin_create_package e st token body)) = fst t'" by blast
  note l = create_row_listing [OF c]
  from l show "let ds = List.map_filter display_order (event_packages st)
       in display_order r = Some ((if ds = [] then 0 else Max (set ds)) + 1)" by (rule conjunct1)
  from l show "is_active r" by blast
  from l s show "event_packages (snd (admin_create_package e st token body)) = event_packages st @ [r]"
    by simp
  from l show "\<forall>x \<in> set (event_packages st). display_order x \<noteq> None \<longrightarrow> order_key x < order_key r"
    by blast
next
  fix r
  assume "fst (admin_create_speaker e st token body) = Row r"
  from admin_create_speaker_row [OF this] obtain params cols t'
    where c: "create_row e Speakers params cols (speakers st, speakers_seq st) = Inr (r, t')"
      and s: "speakers (snd (admin_create_speaker e st token body)) = fst t'" by blast
  note l = create_row_listing [OF c]
  from l show "let ds = List.map_filter display_order (speakers st)
       in display_order r = Some ((if ds = [] then 0 else Max (set ds)) + 1)" by (rule conjunct1)
  from l show "is_active r" by blast
  from l s show "speakers (snd (admin_create_speaker e st token body)) = speakers st @ [r]"
    by simp
  from l show "\<forall>x \<in> set (speakers st). display_order x \<noteq> None \<longrightarrow> order_key x < order_key r"
    by blast
qed

text \<open>On two packages with display orders 2 and 1, and on the empty table.\<close>

theorem create_assigns_next_display_order_witness:
  "fst (admin_create_package demo_env two_packages session gold_body) =
     Row \<lparr>row_id = 3, display_order = Some 3, is_active = True, columns = gold\<rparr> \<and>
   fst (admin_create_package demo_env empty_store session gold_body) =
     Row \<lparr>row_id = 1, display_order = Some 1, is_active = True, columns = gold\<rparr> \<and>
   event_packages (snd (admin_create_package demo_env two_packages session gold_body)) =
     event_packages two_packages @
     [\<lparr>row_id = 3, display_order = Some 3, is_active = True, columns = gold\<rparr>]"
proof -
  have a: "fst (admin_create_package demo_env two_packages session gold_body) =
     Row \<lparr>row_id = 3, display_order = Some 3, is_active = True, columns = gold\<rparr>"
    by (simp add: admin_create_package_def create_row_def next_order_def max_display_order_def
        List.map_filter_def Let_def catalog_simps demo_simps param_text_null_def)
  have b: "fst (admin_create_package demo_env empty_store session gold_body) =
     Row \<lparr>row_id = 1, display_order = Some 1, is_active = True, columns = gold\<rparr>"
    by (simp add: admin_create_package_def create_row_def next_order_def max_display_order_def
        List.map_filter_def Let_def catalog_simps demo_simps param_text_null_def)
  from create_assigns_next_display_order [of demo_env two_packages session gold_body,
      THEN conjunct1, THEN spec, THEN mp, OF a]
  have c: "event_packages (snd (admin_create_package demo_env two_packages session gold_body)) =
     event_packages two_packages @
     [\<lparr>row_id = 3, display_order = Some 3, is_active = True, columns = gold\<rparr>]"
    by blast
  from a b c show ?thesis by blast
qed

text \<open>
  C7 as stated fails: the one existing package has a NULL \<open>display_order\<close>, the new
  package gets display order 1, and the list shows the new package before the existing
  one (NULL sorts last).
\<close>

theorem create_before_null_display_order:
  "event_packages null_order_store =
     [\<lparr>row_id = 1, display_order = None, is_active = True, columns = gold\<rparr>] \<and>
   fst (admin_create_package demo_env null_order_store session gold_body) =
     Row \<lparr>row_id = 2, display_order = Some 1, is_active = True, columns = gold\<rparr> \<and>
   get_packages demo_env (snd (admin_create_package demo_env null_order_store session gold_body)) =
     Rows [\<lparr>row_id = 2, display_order = Some 1, is_active = True, columns = gold\<rparr>,
           \<lparr>row_id = 1, display_order = None, is_active = True, columns = gold\<rparr>]"
proof -
  have one: "one_package = empty_store
     \<lparr>event_packages := [\<lparr>row_id = 1, display_order = Some 1, is_active = True, columns = gold\<rparr>],
      event_packages_seq := 1\<rparr>"
    by (simp add: create_simps catalog_simps demo_simps param_text_null_def)
  have null: "null_order_store = empty_store
     \<lparr>event_packages := [\<lparr>row_id = 1, display_order = None, is_active = True, columns = gold\<rparr>],
      event_packages_seq := 1\<rparr>"
    unfolding null_order_store_def one
    by (simp add: admin_package_order_def set_display_order_def catalog_simps demo_simps)
  have created: "admin_create_package demo_env null_order_store session gold_body =
     (Row \<lparr>row_id = 2, display_order = Some 1, is_active = True, columns = gold\<rparr>,
      empty_store
       \<lparr>event_packages := [\<lparr>row_id = 1, display_order = None, is_active = True, columns = gold\<rparr>,
                           \<lparr>row_id = 2, display_order = Some 1, is_active = True, columns = gold\<rparr>],
        event_packages_seq := 2\<rparr>)"
    unfolding null
    by (simp add: admin_create_package_def create_row_def next_order_def max_display_order_def
        List.map_filter_def Let_def catalog_simps demo_simps param_text_null_def)
  have listed: "get_packages demo_env (empty_store
       \<lparr>event_packages := [\<lparr>row_id = 1, display_order = None, is_active = True, columns = gold\<rparr>,
                           \<lparr>row_id = 2, display_order = Some 1, is_active = True, columns = gold\<rparr>],
        event_packages_seq := 2\<rparr>) =
     Rows [\<lparr>row_id = 2, display_order = Some 1, is_active = True, columns = gold\<rparr>,
           \<lparr>row_id = 1, display_order = None, is_active = True, columns = gold\<rparr>]"
    by (simp add: catalog_simps demo_simps)
  have e1: "event_packages null_order_store =
     [\<lparr>row_id = 1, display_order = None, is_active = True, columns = gold\<rparr>]"
    by (simp add: null)
  have e2: "fst (admin_create_package demo_env null_order_store session gold_body) =
     Row \<lparr>row_id = 2, display_order = Some 1, is_active = True, columns = gold\<rparr>"
    by (simp add: created)
  have e3: "get_packages demo_env (snd (admin_create_package demo_env null_order_store session gold_body)) =
     Rows [\<lparr>row_id = 2, display_order = Some 1, is_active = True, columns = gold\<rparr>,
           \<lparr>row_id = 1, display_order = None, is_active = True, columns = gold\<rparr>]"
    unfolding created snd_conv by (rule listed)
  from e1 e2 e3 show ?thesis by blast
qed

subsection \<open>Admin statistics\<close>

lemma completed_skip:
  "status r \<noteq> ''completed'' \<Longrightarrow> completed (xs @ r # ys) = completed (xs @ ys)"
  by (simp add: completed_def)

lemma today_sales_skip:
  "status r \<noteq> ''completed'' \<Longrightarrow> today_sales d (xs @ r # ys) = today_sales d (xs @ ys)"
  by (simp add: today_sales_def)

lemma today_sales_completed: "today_sales d (completed rows) = today_sales d rows"
  by (induction rows) (simp_all add: today_sales_def completed_def)

lemma completed_idem: "completed (completed rows) = completed rows"
  by (simp add: completed_def)

lemma today_sales_filter:
  "today_sales d rows = length (filter (\<lambda>r. created_date r = d) (completed rows))"
  by (induction rows) (simp_all add: today_sales_def completed_def)

lemma admin_stats_orders:
  assumes "total_tickets rows = total_tickets rows'" and "total_revenue rows = total_revenue rows'"
    and "today_sales (js_today e) rows = today_sales (js_today e) rows'"
  shows "admin_stats e (st\<lparr>orders := rows\<rparr>) token = admin_stats e (st\<lparr>orders := rows'\<rparr>) token"
  using assms by (simp add: admin_stats_def Let_def split: option.splits)

text \<open>
  C10. An order whose status is not \<open>completed\<close>, a \<open>pending\<close> one in particular,
  changes nothing in what the endpoint answers, wherever it stands in the table; the
  answer is the one for the completed orders alone; and when the queries run the three
  figures are the count of the completed orders, the sum of their amounts and the count
  of those created today.
\<close>

theorem admin_stats_completed_only:
  "(status r \<noteq> ''completed'' \<longrightarrow>
      admin_stats e (st\<lparr>orders := xs @ r # ys\<rparr>) token =
      admin_stats e (st\<lparr>orders := xs @ ys\<rparr>) token) \<and>
   (status r = ''pending'' \<longrightarrow>
      admin_stats e (st\<lparr>orders := xs @ r # ys\<rparr>) token =
      admin_stats e (st\<lparr>orders := xs @ ys\<rparr>) token) \<and>
   admin_stats e st token = admin_stats e (st\<lparr>orders := completed (orders st)\<rparr>) token \<and>
   (admin_gate e token = None \<and> db_error e SelectTotals = None \<and>
    db_error e (SelectTodaySales (js_today e)) = None \<longrightarrow>
      admin_stats e st token = Json 200 (JObj
        [(''totalTickets'', JNum (of_nat (length (completed (orders st))))),
         (''totalRevenue'', JNum (sum_list (map amount (completed (orders st))))),
         (''todaySales'', JNum (of_nat (length
            (filter (\<lambda>r. created_date r = js_today e) (completed (orders st))))))]))"
proof -
  have skip: "admin_stats e (st\<lparr>orders := xs @ r # ys\<rparr>) token =
      admin_stats e (st\<lparr>orders := xs @ ys\<rparr>) token" if "status r \<noteq> ''completed''"
    using that
    by (intro admin_stats_orders)
      (simp_all add: total_tickets_def total_revenue_def completed_skip today_sales_skip)
  have pending: "admin_stats e (st\<lparr>orders := xs @ r # ys\<rparr>) token =
      admin_stats e (st\<lparr>orders := xs @ ys\<rparr>) token" if "status r = ''pending''"
    using that by (intro skip) simp
  have "admin_stats e (st\<lparr>orders := orders st\<rparr>) token =
      admin_stats e (st\<lparr>orders := completed (orders st)\<rparr>) token"
    by (intro admin_stats_orders)
      (simp_all add: total_tickets_def total_revenue_def completed_idem today_sales_completed)
  then have only: "admin_stats e st token = admin_stats e (st\<lparr>orders := completed (orders st)\<rparr>) token"
    by simp
  have figures: "admin_stats e st token = Json 200 (JObj
        [(''totalTickets'', JNum (of_nat (length (completed (orders st))))),
         (''totalRevenue'', JNum (sum_list (map amount (completed (orders st))))),
         (''todaySales'', JNum (of_nat (length
            (filter (\<lambda>r. created_date r = js_today e) (completed (orders st))))))])"
    if "admin_gate e token = None \<and> db_error e SelectTotals = None \<and>
        db_error e (SelectTodaySales (js_today e)) = None"
    using that
    by (simp add: admin_stats_def Let_def total_tickets_def total_revenue_def today_sales_filter)
  from skip pending only figures show ?thesis by blast
qed

text \<open>One completed order of 299 and pending order 42.\<close>

theorem admin_stats_completed_only_witness:
  "status order_42 = ''pending'' \<and>
   admin_stats demo_env (empty_store\<lparr>orders := [paid_order] @ order_42 # []\<rparr>) session =
     admin_stats demo_env (empty_store\<lparr>orders := [paid_order] @ []\<rparr>) session \<and>
   admin_stats demo_env (empty_store\<lparr>orders := [paid_order, order_42]\<rparr>) session =
     Json 200 (JObj [(''totalTickets'', JNum 1), (''totalRevenue'', JNum 299), (''todaySales'', JNum 1)])"
proof -
  have p: "status order_42 = ''pending''" by (simp add: order_42_def)
  note t = admin_stats_completed_only [where r = order_42 and e = demo_env and st = empty_store
      and xs = "[paid_order]" and ys = "[]" and token = session]
  have a: "admin_stats demo_env (empty_store\<lparr>orders := [paid_order] @ order_42 # []\<rparr>) session =
     admin_stats demo_env (empty_store\<lparr>orders := [paid_order] @ []\<rparr>) session"
    using t [THEN conjunct2, THEN conjunct1, THEN mp, OF p] .
  have g: "admin_gate demo_env session = None \<and> db_error demo_env SelectTotals = None \<and>
        db_error demo_env (SelectTodaySales (js_today demo_env)) = None"
    by (simp add: admin_gate_def verifyAdminToken_def session_def demo_env_def)
  have b: "admin_stats demo_env (empty_store\<lparr>orders := [paid_order, order_42]\<rparr>) session =
     Json 200 (JObj [(''totalTickets'', JNum 1), (''totalRevenue'', JNum 299), (''todaySales'', JNum 1)])"
    using admin_stats_completed_only [where r = order_42 and e = demo_env
        and st = "empty_store\<lparr>orders := [paid_order, order_42]\<rparr>" and xs = "[]" and ys = "[]"
        and token = session, THEN conjunct2, THEN conjunct2, THEN conjunct2, THEN mp, OF g]
    by (simp add: completed_def paid_order_def order_42_def demo_env_def)
  from p a b show ?thesis by simp
qed

end
